theory Spec2Isabelle
  imports Complex_Main "HOL-Library.Word" "HOL-Library.Sublist"
begin

section \<open>JavaScript strings and JSON values\<close>

text \<open>
  A JavaScript string is a sequence of UTF-16 code units, and \<open>length\<close>, \<open>substring\<close>,
  \<open>startsWith\<close> and \<open>includes\<close> all count code units. The model therefore takes a string
  to be a list of 16-bit words. \<open>str\<close> turns an ASCII literal of the source into that list.
\<close>

type_synonym jschar = "16 word"
type_synonym jsstring = "jschar list"

definition str :: "string \<Rightarrow> jsstring" where
  "str s = map of_char s"

text \<open>\<open>a.startsWith(b)\<close> is \<open>prefix b a\<close>; \<open>a.substring(n)\<close> is \<open>drop n a\<close>;
  \<open>a.substring(0, n)\<close> is \<open>take n a\<close>; \<open>a.includes(b)\<close> is \<open>js_includes a b\<close>.\<close>

fun js_includes :: "jsstring \<Rightarrow> jsstring \<Rightarrow> bool" where
  "js_includes [] v = (v = [])"
| "js_includes (c # cs) v = (prefix v (c # cs) \<or> js_includes cs v)"

text \<open>\<open>xs.join(sep)\<close> on an array of strings.\<close>

fun join :: "jsstring \<Rightarrow> jsstring list \<Rightarrow> jsstring" where
  "join sep [] = []"
| "join sep [x] = x"
| "join sep (x # y # ys) = x @ sep @ join sep (y # ys)"

text \<open>\<open>x || d\<close> for a possibly undefined string \<open>x\<close>: the empty string is falsy.\<close>

definition falsy :: "jsstring option \<Rightarrow> bool" where
  "falsy x = (case x of None \<Rightarrow> True | Some v \<Rightarrow> v = [])"

definition or_else :: "jsstring option \<Rightarrow> jsstring \<Rightarrow> jsstring" where
  "or_else x d = (case x of None \<Rightarrow> d | Some v \<Rightarrow> if v = [] then d else v)"

text \<open>
  The values the modelled handlers put in a response: \<open>undefined\<close>, \<open>null\<close>, booleans,
  strings and objects (property lists in insertion order, each key at most once). No
  modelled path puts a number or an array in a response.
\<close>

datatype jsval =
    JUndefined
  | JNull
  | JBool bool
  | JStr jsstring
  | JObj "(jsstring \<times> jsval) list"

text \<open>
  \<open>JSON.stringify\<close>. A string is quoted with the escapes of ECMAScript's
  QuoteJSONString: the two-character escapes, \<open>\u00xx\<close> for the other control
  characters and for lone surrogates; a surrogate pair is copied.
\<close>

definition hex_digit :: "jschar \<Rightarrow> jschar" where
  "hex_digit d = (if d < 10 then 0x30 + d else 0x57 + d)"

definition unicode_escape :: "jschar \<Rightarrow> jsstring" where
  "unicode_escape c =
     [0x5C, 0x75,
      hex_digit (drop_bit 12 c),
      hex_digit (and (drop_bit 8 c) 0xF),
      hex_digit (and (drop_bit 4 c) 0xF),
      hex_digit (and c 0xF)]"

definition is_high_surrogate :: "jschar \<Rightarrow> bool" where
  "is_high_surrogate c = (0xD800 \<le> c \<and> c \<le> 0xDBFF)"

definition is_low_surrogate :: "jschar \<Rightarrow> bool" where
  "is_low_surrogate c = (0xDC00 \<le> c \<and> c \<le> 0xDFFF)"

fun quote_units :: "jsstring \<Rightarrow> jsstring" where
  "quote_units [] = []"
| "quote_units (c # cs) =
     (if c = 0x08 then [0x5C, 0x62] @ quote_units cs
      else if c = 0x09 then [0x5C, 0x74] @ quote_units cs
      else if c = 0x0A then [0x5C, 0x6E] @ quote_units cs
      else if c = 0x0C then [0x5C, 0x66] @ quote_units cs
      else if c = 0x0D then [0x5C, 0x72] @ quote_units cs
      else if c = 0x22 then [0x5C, 0x22] @ quote_units cs
      else if c = 0x5C then [0x5C, 0x5C] @ quote_units cs
      else if c < 0x20 then unicode_escape c @ quote_units cs
      else if is_high_surrogate c then
        (case cs of
           [] \<Rightarrow> unicode_escape c
         | d # ds \<Rightarrow>
             if is_low_surrogate d then c # d # quote_units ds
             else unicode_escape c @ quote_units cs)
      else if is_low_surrogate c then unicode_escape c @ quote_units cs
      else c # quote_units cs)"

definition quote :: "jsstring \<Rightarrow> jsstring" where
  "quote s = [0x22] @ quote_units s @ [0x22]"

text \<open>A property whose value is \<open>undefined\<close> is left out of the object's text, and
  \<open>JSON.stringify(undefined)\<close> is \<open>undefined\<close> (here \<open>None\<close>).\<close>

fun JSON_stringify :: "jsval \<Rightarrow> jsstring option"
  and stringify_props :: "(jsstring \<times> jsval) list \<Rightarrow> jsstring list" where
  "JSON_stringify JUndefined = None"
| "JSON_stringify JNull = Some (str ''null'')"
| "JSON_stringify (JBool b) = Some (if b then str ''true'' else str ''false'')"
| "JSON_stringify (JStr s) = Some (quote s)"
| "JSON_stringify (JObj ps) =
     Some (str ''{'' @ join (str '','') (stringify_props ps) @ str ''}'')"
| "stringify_props [] = []"
| "stringify_props ((k, v) # ps) =
     (case JSON_stringify v of
        None \<Rightarrow> stringify_props ps
      | Some t \<Rightarrow> (quote k @ str '':'' @ t) # stringify_props ps)"


section \<open>Parsed JSON\<close>

text \<open>
  What \<open>JSON.parse\<close> and \<open>request.json()\<close> can return: any JSON value. A number is a
  finite double, taken as the rational it denotes, or an infinity (the parse of a literal
  that overflows); the modelled code observes of a number only whether it is zero.
  An object is its property list, each key at most once.
\<close>

datatype number = Finite rat | Infinity bool

datatype json =
    JsonNull
  | JsonBool bool
  | JsonNum number
  | JsonStr jsstring
  | JsonArr "json list"
  | JsonObj "(jsstring \<times> json) list"

text \<open>Truthiness, as \<open>!v\<close> and \<open>v ? a : b\<close> test it; \<open>undefined\<close> (here \<open>None\<close>) is falsy.\<close>

fun truthy :: "json \<Rightarrow> bool" where
  "truthy JsonNull = False"
| "truthy (JsonBool b) = b"
| "truthy (JsonNum (Finite q)) = (q \<noteq> 0)"
| "truthy (JsonNum (Infinity b)) = True"
| "truthy (JsonStr s) = (s \<noteq> [])"
| "truthy (JsonArr xs) = True"
| "truthy (JsonObj ps) = True"

definition truthy_opt :: "json option \<Rightarrow> bool" where
  "truthy_opt x = (case x of None \<Rightarrow> False | Some v \<Rightarrow> truthy v)"

text \<open>
  The property read \<open>v.k\<close>, for a value \<open>v\<close> that is not \<open>null\<close> and a name \<open>k\<close> that no
  prototype defines, as the five field names and \<open>action\<close> are: an object gives its own
  property, every other value gives \<open>undefined\<close>.
\<close>

fun get_property :: "json \<Rightarrow> jsstring \<Rightarrow> json option" where
  "get_property (JsonObj ps) k = map_of ps k"
| "get_property _ k = None"

section \<open>The secrets manager (src/lib/secrets.ts)\<close>

text \<open>The interface \<open>AppSecrets\<close>, and the object a value of it is at run time.\<close>

record AppSecrets =
  databaseUrl :: jsstring
  apiKey :: jsstring
  jwtSecret :: jsstring
  redisUrl :: jsstring
  stripeSecretKey :: jsstring

definition object_of :: "AppSecrets \<Rightarrow> json" where
  "object_of r =
     JsonObj [(str ''databaseUrl'', JsonStr (databaseUrl r)),
              (str ''apiKey'', JsonStr (apiKey r)),
              (str ''jwtSecret'', JsonStr (jwtSecret r)),
              (str ''redisUrl'', JsonStr (redisUrl r)),
              (str ''stripeSecretKey'', JsonStr (stripeSecretKey r))]"

text \<open>An exception, with its message. The faults are the TypeErrors the engine itself
  throws in the modelled code; their wording is the engine's.\<close>

datatype error = Error (message: jsstring)

datatype fault =
    Destructure_null
  | Read_of_undefined jsstring
  | Read_of_null jsstring
  | Not_a_function jsstring

text \<open>
  What the process is given from outside. \<open>env\<close> is \<open>process.env\<close>.
  \<open>octokit_getContent token owner repo path\<close> is the call
  \<open>new Octokit({auth: token}).repos.getContent({owner, repo, path})\<close>: it rejects, or
  resolves to a response whose \<open>data.content\<close> is a string or is not there.
  \<open>base64_utf8\<close> is \<open>Buffer.from(c, 'base64').toString('utf-8')\<close>, which never throws.
  \<open>JSON_parse\<close> throws or returns a JSON value, whatever its shape: the annotation
  \<open>AppSecrets | null\<close> of the field that receives it checks nothing at run time.
  \<open>now_iso\<close> is what \<open>new Date().toISOString()\<close> returns. \<open>TypeError_message\<close> is the
  message the engine gives each fault.
\<close>

datatype fetch_result = Rejects error | Resolves "jsstring option"

datatype parse_result = Throws error | Returns json

record platform =
  env :: "string \<rightharpoonup> jsstring"
  octokit_getContent :: "jsstring \<Rightarrow> jsstring \<Rightarrow> jsstring \<Rightarrow> jsstring \<Rightarrow> fetch_result"
  base64_utf8 :: "jsstring \<Rightarrow> jsstring"
  JSON_parse :: "jsstring \<Rightarrow> parse_result"
  now_iso :: jsstring
  TypeError_message :: "fault \<Rightarrow> jsstring"

definition TypeError :: "platform \<Rightarrow> fault \<Rightarrow> error" where
  "TypeError p f = Error (TypeError_message p f)"

record SecretsManager =
  secrets :: json
  isInitialized :: bool

text \<open>
  The requests of src/lib/apiKeyAuth.ts. \<open>headers\<close> holds the header values as the
  request was given them, keyed by the lower-case header name, and \<open>json\<close> is what
  \<open>await request.json()\<close> gives. \<open>request.headers.get(name)\<close> is \<open>Headers_get\<close>: a
  \<open>Headers\<close> object keeps each value with its leading and trailing HTTP whitespace
  (tab, line feed, carriage return, space) removed. An \<open>AuthenticatedRequest\<close> adds the
  optional \<open>apiKey\<close> and \<open>secrets\<close> of the source, named \<open>req_apiKey\<close> and
  \<open>req_secrets\<close> here.
\<close>

record NextRequest =
  headers :: "string \<rightharpoonup> jsstring"
  json :: "error + json"

record AuthenticatedRequest = NextRequest +
  req_apiKey :: "jsstring option"
  req_secrets :: "json option"

definition is_http_whitespace :: "jschar \<Rightarrow> bool" where
  "is_http_whitespace c = (c = 0x09 \<or> c = 0x0A \<or> c = 0x0D \<or> c = 0x20)"

definition normalize :: "jsstring \<Rightarrow> jsstring" where
  "normalize v = rev (dropWhile is_http_whitespace (rev (dropWhile is_http_whitespace v)))"

definition Headers_get :: "NextRequest \<Rightarrow> string \<Rightarrow> jsstring option" where
  "Headers_get r name = map_option normalize (headers r name)"

text \<open>
  The state of the process: the one \<open>SecretsManager\<close> instance, and a trace of what has
  been done so far, in order: each call of the helper \<open>getSecrets\<close>, each run of
  \<open>loadFromEnv\<close>, each remote fetch with its arguments, each \<open>console.error\<close>, and each
  call of a wrapped handler with the request it is given.
\<close>

datatype effect =
    Call_getSecrets
  | Call_loadFromEnv
  | Call_getContent jsstring jsstring jsstring jsstring
  | Console_error jsstring error
  | Call_handler AuthenticatedRequest

record proc =
  manager :: SecretsManager
  effects :: "effect list"

definition emit :: "effect \<Rightarrow> proc \<Rightarrow> proc" where
  "emit e s = s\<lparr>effects := effects s @ [e]\<rparr>"

definition fresh :: proc where
  "fresh = \<lparr>manager = \<lparr>secrets = JsonNull, isInitialized = False\<rparr>, effects = []\<rparr>"

text \<open>\<open>Object.entries(this.secrets)\<close> on the object \<open>loadFromEnv\<close> has just built: the fields
  in the order the object literal lists them.\<close>

definition entries :: "AppSecrets \<Rightarrow> (jsstring \<times> jsstring) list" where
  "entries r =
     [(str ''databaseUrl'', databaseUrl r),
      (str ''apiKey'', apiKey r),
      (str ''jwtSecret'', jwtSecret r),
      (str ''redisUrl'', redisUrl r),
      (str ''stripeSecretKey'', stripeSecretKey r)]"

definition missingSecrets :: "AppSecrets \<Rightarrow> jsstring list" where
  "missingSecrets r = map fst (filter (\<lambda>(k, v). v = []) (entries r))"

definition secrets_from_env :: "platform \<Rightarrow> AppSecrets" where
  "secrets_from_env p =
     \<lparr>databaseUrl = or_else (env p ''DATABASE_URL'') [],
      apiKey = or_else (env p ''API_KEY'') [],
      jwtSecret = or_else (env p ''JWT_SECRET'') [],
      redisUrl = or_else (env p ''REDIS_URL'') [],
      stripeSecretKey = or_else (env p ''STRIPE_SECRET_KEY'') []\<rparr>"

text \<open>\<open>loadFromEnv\<close> stores the record first and validates it afterwards.\<close>

definition loadFromEnv :: "platform \<Rightarrow> proc \<Rightarrow> (error + unit) \<times> proc" where
  "loadFromEnv p s =
     (let r = secrets_from_env p;
          s1 = emit Call_loadFromEnv (s\<lparr>manager := (manager s)\<lparr>secrets := object_of r\<rparr>\<rparr>)
      in if length (missingSecrets r) > 0
         then (Inl (Error (str ''Missing required secrets: ''
                            @ join (str '', '') (missingSecrets r))), s1)
         else (Inr (), s1))"

text \<open>The body of the \<open>try\<close> block of \<open>loadFromGitHub\<close>. Whatever \<open>JSON.parse\<close> returns is
  stored as it is.\<close>

definition loadFromGitHub_try :: "platform \<Rightarrow> proc \<Rightarrow> (error + unit) \<times> proc" where
  "loadFromGitHub_try p s =
     (let githubToken = env p ''GITHUB_TOKEN'';
          repoOwner = env p ''GITHUB_REPO_OWNER'';
          repoName = env p ''GITHUB_REPO_NAME'';
          secretsPath = or_else (env p ''GITHUB_SECRETS_PATH'') (str ''secrets.json'')
      in if falsy githubToken \<or> falsy repoOwner \<or> falsy repoName
         then (Inl (Error (str ''GitHub configuration missing. Please set GITHUB_TOKEN, GITHUB_REPO_OWNER, and GITHUB_REPO_NAME'')), s)
         else
           (let token = or_else githubToken [];
                owner = or_else repoOwner [];
                repo = or_else repoName [];
                s1 = emit (Call_getContent token owner repo secretsPath) s
            in case octokit_getContent p token owner repo secretsPath of
                 Rejects e \<Rightarrow> (Inl e, s1)
               | Resolves None \<Rightarrow>
                   (Inl (Error (str ''Failed to fetch secrets from GitHub'')), s1)
               | Resolves (Some c) \<Rightarrow>
                   if c = [] then (Inl (Error (str ''Failed to fetch secrets from GitHub'')), s1)
                   else
                     (case JSON_parse p (base64_utf8 p c) of
                        Throws e \<Rightarrow> (Inl e, s1)
                      | Returns v \<Rightarrow> (Inr (), s1\<lparr>manager := (manager s1)\<lparr>secrets := v\<rparr>\<rparr>))))"

definition loadFromGitHub :: "platform \<Rightarrow> proc \<Rightarrow> (error + unit) \<times> proc" where
  "loadFromGitHub p s =
     (case loadFromGitHub_try p s of
        (Inr u, s1) \<Rightarrow> (Inr u, s1)
      | (Inl e, s1) \<Rightarrow>
          (Inl (Error (str ''Failed to initialize secrets from GitHub'')),
           emit (Console_error (str ''Error loading secrets from GitHub:'') e) s1))"

definition initialize :: "platform \<Rightarrow> proc \<Rightarrow> (error + unit) \<times> proc" where
  "initialize p s =
     (if isInitialized (manager s) then (Inr (), s)
      else
        (case (if env p ''NODE_ENV'' = Some (str ''production'')
               then loadFromGitHub p s else loadFromEnv p s) of
           (Inl e, s1) \<Rightarrow> (Inl e, s1)
         | (Inr u, s1) \<Rightarrow> (Inr (), s1\<lparr>manager := (manager s1)\<lparr>isInitialized := True\<rparr>\<rparr>)))"

text \<open>The method \<open>SecretsManager.getSecrets\<close>; the guard \<open>!this.secrets\<close> is on the stored
  value, not on the flag.\<close>

definition NotInitializedError :: error where
  "NotInitializedError = Error (str ''Secrets not initialized. Call initialize() first.'')"

definition SecretsManager_getSecrets :: "SecretsManager \<Rightarrow> error + json" where
  "SecretsManager_getSecrets m =
     (if \<not> truthy (secrets m) then Inl NotInitializedError else Inr (secrets m))"

definition isReady :: "SecretsManager \<Rightarrow> bool" where
  "isReady m = (isInitialized m \<and> secrets m \<noteq> JsonNull)"

text \<open>The exported helper \<open>getSecrets\<close>.\<close>

definition getSecrets :: "platform \<Rightarrow> proc \<Rightarrow> (error + json) \<times> proc" where
  "getSecrets p s =
     (let s0 = emit Call_getSecrets s
      in if \<not> isReady (manager s0)
         then (case initialize p s0 of
                 (Inl e, s1) \<Rightarrow> (Inl e, s1)
               | (Inr u, s1) \<Rightarrow> (SecretsManager_getSecrets (manager s1), s1))
         else (SecretsManager_getSecrets (manager s0), s0))"

section \<open>The request gate (src/lib/apiKeyAuth.ts)\<close>

text \<open>\<open>NextResponse.json(payload, {status})\<close>; its body is the JSON text of the payload.\<close>

record NextResponse =
  status :: nat
  payload :: jsval

definition NextResponse_json :: "jsval \<Rightarrow> nat \<Rightarrow> NextResponse" where
  "NextResponse_json v code = \<lparr>status = code, payload = v\<rparr>"

definition body :: "NextResponse \<Rightarrow> jsstring option" where
  "body r = JSON_stringify (payload r)"

definition error_payload :: "jsstring \<Rightarrow> jsval" where
  "error_payload m = JObj [(str ''status'', JStr (str ''error'')), (str ''message'', JStr m)]"

text \<open>The four rejections of \<open>validateApiKey\<close>, under the names the specification gives
  their kinds.\<close>

definition MissingCredential :: NextResponse where
  "MissingCredential =
     NextResponse_json (error_payload (str ''API key required. Use Authorization: Bearer <api-key> or X-API-Key header'')) 401"

definition ServerMisconfigured :: NextResponse where
  "ServerMisconfigured =
     NextResponse_json (error_payload (str ''API key not configured on server'')) 500"

definition InvalidCredential :: NextResponse where
  "InvalidCredential = NextResponse_json (error_payload (str ''Invalid API key'')) 401"

definition ConfigurationUnavailable :: NextResponse where
  "ConfigurationUnavailable =
     NextResponse_json (error_payload (str ''Internal server error during authentication'')) 500"

record AuthResult =
  isValid :: bool
  request :: AuthenticatedRequest
  response :: "NextResponse option"

text \<open>\<open>request as AuthenticatedRequest\<close>: the same request, nothing attached yet.\<close>

definition as_AuthenticatedRequest :: "NextRequest \<Rightarrow> AuthenticatedRequest" where
  "as_AuthenticatedRequest r =
     \<lparr>headers = headers r, json = json r, req_apiKey = None, req_secrets = None\<rparr>"

text \<open>The constant \<open>providedApiKey\<close> of \<open>validateApiKey\<close>: the conditional chooses by the
  prefix of the Authorization header alone.\<close>

definition providedApiKey :: "NextRequest \<Rightarrow> jsstring option" where
  "providedApiKey r =
     (let authHeader = Headers_get r ''authorization'';
          apiKeyHeader = Headers_get r ''x-api-key''
      in case authHeader of
           None \<Rightarrow> apiKeyHeader
         | Some h \<Rightarrow> if prefix (str ''Bearer '') h then Some (drop 7 h) else apiKeyHeader)"

text \<open>
  \<open>validateApiKey\<close>. \<open>secrets.apiKey\<close> may be any value or \<open>undefined\<close>:
  \<open>!secrets.apiKey\<close> tests its truthiness, and \<open>providedApiKey !== secrets.apiKey\<close> holds
  unless it is the very string provided.
\<close>

definition validateApiKey :: "platform \<Rightarrow> NextRequest \<Rightarrow> proc \<Rightarrow> AuthResult \<times> proc" where
  "validateApiKey p r s =
     (if falsy (providedApiKey r)
      then (\<lparr>isValid = False, request = as_AuthenticatedRequest r,
              response = Some MissingCredential\<rparr>, s)
      else
        (case getSecrets p s of
           (Inl e, s1) \<Rightarrow>
             (\<lparr>isValid = False, request = as_AuthenticatedRequest r,
               response = Some ConfigurationUnavailable\<rparr>,
              emit (Console_error (str ''Error validating API key:'') e) s1)
         | (Inr sec, s1) \<Rightarrow>
             if \<not> truthy_opt (get_property sec (str ''apiKey''))
             then (\<lparr>isValid = False, request = as_AuthenticatedRequest r,
                     response = Some ServerMisconfigured\<rparr>, s1)
             else if map_option JsonStr (providedApiKey r) \<noteq> get_property sec (str ''apiKey'')
             then (\<lparr>isValid = False, request = as_AuthenticatedRequest r,
                     response = Some InvalidCredential\<rparr>, s1)
             else (\<lparr>isValid = True,
                     request = (as_AuthenticatedRequest r)
                       \<lparr>req_apiKey := providedApiKey r, req_secrets := Some sec\<rparr>,
                     response = None\<rparr>, s1)))"

text \<open>
  \<open>withApiKeyAuth(handler)\<close>. A handler is any function of the request and the process
  state that throws or returns a response. The result \<open>None\<close> stands for the
  \<open>undefined\<close> that \<open>authResult.response!\<close> would give were the response not set.
\<close>

type_synonym handler = "AuthenticatedRequest \<Rightarrow> proc \<Rightarrow> (error + NextResponse) \<times> proc"

definition withApiKeyAuth ::
  "handler \<Rightarrow> platform \<Rightarrow> NextRequest \<Rightarrow> proc \<Rightarrow> (error + NextResponse option) \<times> proc" where
  "withApiKeyAuth h p r s =
     (case validateApiKey p r s of
        (authResult, s1) \<Rightarrow>
          if \<not> isValid authResult then (Inr (response authResult), s1)
          else (case h (request authResult) (emit (Call_handler (request authResult)) s1) of
                  (Inl e, s2) \<Rightarrow> (Inl e, s2)
                | (Inr resp, s2) \<Rightarrow> (Inr (Some resp), s2)))"

section \<open>The status endpoint (src/app/api/secrets/route.ts)\<close>




text \<open>The \<open>error\<close> property of the 500 responses: the message of the exception in
  development, a fixed text otherwise.\<close>

definition error_detail :: "platform \<Rightarrow> error \<Rightarrow> jsval" where
  "error_detail p e =
     (if env p ''NODE_ENV'' = Some (str ''development'') then JStr (message e)
      else JStr (str ''Internal server error''))"


text \<open>
  \<open>const { action } = await request.json()\<close>: the body may fail to parse, and
  destructuring \<open>null\<close> throws a TypeError; any other value has a (possibly undefined)
  \<open>action\<close>.
\<close>

definition destructure_action :: "platform \<Rightarrow> NextRequest \<Rightarrow> error + json option" where
  "destructure_action p r =
     (case json r of
        Inl e \<Rightarrow> Inl e
      | Inr JsonNull \<Rightarrow> Inl (TypeError p Destructure_null)
      | Inr v \<Rightarrow> Inr (get_property v (str ''action'')))"

text \<open>
  \<open>secrets.jwtSecret.substring(0, 8)\<close>: a string gives its first eight code units; reading
  \<open>substring\<close> of \<open>undefined\<close> or \<open>null\<close> throws, and on any other value \<open>substring\<close> is
  not a function.
\<close>

definition jwtSecret_substring :: "platform \<Rightarrow> json \<Rightarrow> error + jsstring" where
  "jwtSecret_substring p sec =
     (case get_property sec (str ''jwtSecret'') of
        None \<Rightarrow> Inl (TypeError p (Read_of_undefined (str ''substring'')))
      | Some JsonNull \<Rightarrow> Inl (TypeError p (Read_of_null (str ''substring'')))
      | Some (JsonStr j) \<Rightarrow> Inr (take 8 j)
      | Some v \<Rightarrow> Inl (TypeError p (Not_a_function (str ''secrets.jwtSecret.substring''))))"

text \<open>
  \<open>secrets.databaseUrl.includes('postgresql')\<close>: a string is searched for the text, an
  array for an element that is this string; the rest is as for \<open>substring\<close>.
\<close>

definition databaseUrl_includes :: "platform \<Rightarrow> json \<Rightarrow> error + bool" where
  "databaseUrl_includes p sec =
     (case get_property sec (str ''databaseUrl'') of
        None \<Rightarrow> Inl (TypeError p (Read_of_undefined (str ''includes'')))
      | Some JsonNull \<Rightarrow> Inl (TypeError p (Read_of_null (str ''includes'')))
      | Some (JsonStr d) \<Rightarrow> Inr (js_includes d (str ''postgresql''))
      | Some (JsonArr xs) \<Rightarrow> Inr (JsonStr (str ''postgresql'') \<in> set xs)
      | Some v \<Rightarrow> Inl (TypeError p (Not_a_function (str ''secrets.databaseUrl.includes''))))"

definition POST_failure :: "platform \<Rightarrow> error \<Rightarrow> proc \<Rightarrow> NextResponse \<times> proc" where
  "POST_failure p e s =
     (NextResponse_json
        (JObj [(str ''status'', JStr (str ''error'')),
               (str ''message'', JStr (str ''Failed to process request'')),
               (str ''error'', error_detail p e)]) 500,
      emit (Console_error (str ''Error in secrets POST API:'') e) s)"

definition POST :: "platform \<Rightarrow> NextRequest \<Rightarrow> proc \<Rightarrow> NextResponse \<times> proc" where
  "POST p r s =
     (case destructure_action p r of
        Inl e \<Rightarrow> POST_failure p e s
      | Inr action \<Rightarrow>
          (case getSecrets p s of
             (Inl e, s1) \<Rightarrow> POST_failure p e s1
           | (Inr sec, s1) \<Rightarrow>
               if action = Some (JsonStr (str ''authenticate''))
               then
                 (case jwtSecret_substring p sec of
                    Inl e \<Rightarrow> POST_failure p e s1
                  | Inr first8 \<Rightarrow>
                      (let token = str ''jwt_token_using_'' @ first8 @ str ''...''
                       in (NextResponse_json
                             (JObj [(str ''status'', JStr (str ''success'')),
                                    (str ''message'', JStr (str ''Authentication successful'')),
                                    (str ''token'', JStr token)]) 200, s1)))
               else if action = Some (JsonStr (str ''database''))
               then
                 (case databaseUrl_includes p sec of
                    Inl e \<Rightarrow> POST_failure p e s1
                  | Inr found \<Rightarrow>
                      (NextResponse_json
                         (JObj [(str ''status'', JStr (str ''success'')),
                                (str ''message'', JStr (str ''Database connection configured'')),
                                (str ''databaseType'',
                                   JStr (if found then str ''PostgreSQL''
                                         else str ''Unknown''))]) 200, s1))
               else
                 (NextResponse_json
                    (JObj [(str ''status'', JStr (str ''error'')),
                           (str ''message'', JStr (str ''Invalid action''))]) 400, s1)))"


section \<open>Notions of the specification, and concrete inputs\<close>

text \<open>The environment variable each field is read from (\<open>loadFromEnv\<close>), and the fields
  whose variable is unset or empty.\<close>

definition field_variables :: "(jsstring \<times> string) list" where
  "field_variables =
     [(str ''databaseUrl'', ''DATABASE_URL''),
      (str ''apiKey'', ''API_KEY''),
      (str ''jwtSecret'', ''JWT_SECRET''),
      (str ''redisUrl'', ''REDIS_URL''),
      (str ''stripeSecretKey'', ''STRIPE_SECRET_KEY'')]"

definition missing_fields :: "platform \<Rightarrow> jsstring list" where
  "missing_fields p = map fst (filter (\<lambda>(k, var). falsy (env p var)) field_variables)"

text \<open>A stored value all of whose five fields are non-empty strings, and the strings its
  fields hold.\<close>

definition nonempty_string :: "json option \<Rightarrow> bool" where
  "nonempty_string x = (case x of Some (JsonStr v) \<Rightarrow> v \<noteq> [] | _ \<Rightarrow> False)"

definition all_fields_nonempty :: "json \<Rightarrow> bool" where
  "all_fields_nonempty v =
     (nonempty_string (get_property v (str ''databaseUrl''))
      \<and> nonempty_string (get_property v (str ''apiKey''))
      \<and> nonempty_string (get_property v (str ''jwtSecret''))
      \<and> nonempty_string (get_property v (str ''redisUrl''))
      \<and> nonempty_string (get_property v (str ''stripeSecretKey'')))"



text \<open>The loads a trace holds: runs of \<open>loadFromEnv\<close> and remote fetches.\<close>

fun is_load :: "effect \<Rightarrow> bool" where
  "is_load Call_loadFromEnv = True"
| "is_load (Call_getContent t ow rp path) = True"
| "is_load _ = False"

definition loads :: "proc \<Rightarrow> nat" where
  "loads s = length (filter is_load (effects s))"

text \<open>
  Credential extraction as the specification words it: an ordered list of strategies,
  the Bearer token of the Authorization header first and the X-API-Key header second,
  returning the first non-empty result.
\<close>

definition bearer_token :: "NextRequest \<Rightarrow> jsstring option" where
  "bearer_token r =
     (case Headers_get r ''authorization'' of
        None \<Rightarrow> None
      | Some h \<Rightarrow> if prefix (str ''Bearer '') h then Some (drop 7 h) else None)"

fun first_non_empty :: "jsstring option list \<Rightarrow> jsstring option" where
  "first_non_empty [] = None"
| "first_non_empty (x # xs) = (if falsy x then first_non_empty xs else x)"

definition spec_credential :: "NextRequest \<Rightarrow> jsstring option" where
  "spec_credential r = first_non_empty [bearer_token r, Headers_get r ''x-api-key'']"

text \<open>Concrete environments, remote hosts and requests. The messages are those of V8.\<close>

fun v8_message :: "fault \<Rightarrow> jsstring" where
  "v8_message Destructure_null =
     str ''Cannot destructure property 'action' of '(intermediate value)' as it is null.''"
| "v8_message (Read_of_undefined k) =
     str ''Cannot read properties of undefined (reading '' @ [0x27] @ k @ [0x27] @ str '')''"
| "v8_message (Read_of_null k) =
     str ''Cannot read properties of null (reading '' @ [0x27] @ k @ [0x27] @ str '')''"
| "v8_message (Not_a_function e) = e @ str '' is not a function''"

definition no_host :: "jsstring \<Rightarrow> jsstring \<Rightarrow> jsstring \<Rightarrow> jsstring \<Rightarrow> fetch_result" where
  "no_host t ow rp path = Rejects (Error (str ''Not Found''))"

definition no_parse :: "jsstring \<Rightarrow> parse_result" where
  "no_parse c = Throws (Error (str ''Unexpected end of JSON input''))"

definition sample_secrets :: AppSecrets where
  "sample_secrets =
     \<lparr>databaseUrl = str ''postgresql://db'', apiKey = str ''K1'',
      jwtSecret = str ''0123456789abcdef'', redisUrl = str ''redis://cache'',
      stripeSecretKey = str ''sk_test_1''\<rparr>"

definition local_full :: platform where
  "local_full =
     \<lparr>env = [''NODE_ENV'' \<mapsto> str ''development'',
             ''DATABASE_URL'' \<mapsto> str ''postgresql://db'',
             ''API_KEY'' \<mapsto> str ''K1'',
             ''JWT_SECRET'' \<mapsto> str ''0123456789abcdef'',
             ''REDIS_URL'' \<mapsto> str ''redis://cache'',
             ''STRIPE_SECRET_KEY'' \<mapsto> str ''sk_test_1''],
      octokit_getContent = no_host, base64_utf8 = id, JSON_parse = no_parse,
      now_iso = str ''2025-01-01T00:00:00.000Z'', TypeError_message = v8_message\<rparr>"

text \<open>\<open>API_KEY\<close> is unset and \<open>JWT_SECRET\<close> is set to the empty string.\<close>

definition local_partial :: platform where
  "local_partial =
     \<lparr>env = [''NODE_ENV'' \<mapsto> str ''development'',
             ''DATABASE_URL'' \<mapsto> str ''postgresql://db'',
             ''JWT_SECRET'' \<mapsto> [],
             ''REDIS_URL'' \<mapsto> str ''redis://cache'',
             ''STRIPE_SECRET_KEY'' \<mapsto> str ''sk_test_1''],
      octokit_getContent = no_host, base64_utf8 = id, JSON_parse = no_parse,
      now_iso = str ''2025-01-01T00:00:00.000Z'', TypeError_message = v8_message\<rparr>"

text \<open>Production with the repository owner and name set and \<open>GITHUB_TOKEN\<close> unset.\<close>

definition remote_no_token :: platform where
  "remote_no_token =
     \<lparr>env = [''NODE_ENV'' \<mapsto> str ''production'',
             ''GITHUB_REPO_OWNER'' \<mapsto> str ''acme'',
             ''GITHUB_REPO_NAME'' \<mapsto> str ''config''],
      octokit_getContent = no_host, base64_utf8 = id, JSON_parse = no_parse,
      now_iso = str ''2025-01-01T00:00:00.000Z'', TypeError_message = v8_message\<rparr>"

text \<open>
  Production with all three parameters set. The remote file exists, and its JSON text is
  an object of the five fields in which \<open>apiKey\<close> is the empty string:
  \<open>{"databaseUrl":"postgresql://db","apiKey":"","jwtSecret":"0123456789abcdef",
  "redisUrl":"redis://cache","stripeSecretKey":"sk_test_1"}\<close>.
\<close>

definition remote_file :: "jsstring \<Rightarrow> jsstring \<Rightarrow> jsstring \<Rightarrow> jsstring \<Rightarrow> fetch_result" where
  "remote_file t ow rp path = Resolves (Some (str ''eyJkYXRhYmFzZVVybCI6''))"

definition parse_empty_key :: "jsstring \<Rightarrow> parse_result" where
  "parse_empty_key c = Returns (object_of (sample_secrets\<lparr>apiKey := []\<rparr>))"

definition remote_empty_key :: platform where
  "remote_empty_key =
     \<lparr>env = [''NODE_ENV'' \<mapsto> str ''production'',
             ''GITHUB_TOKEN'' \<mapsto> str ''ghp_token'',
             ''GITHUB_REPO_OWNER'' \<mapsto> str ''acme'',
             ''GITHUB_REPO_NAME'' \<mapsto> str ''config''],
      octokit_getContent = remote_file, base64_utf8 = id, JSON_parse = parse_empty_key,
      now_iso = str ''2025-01-01T00:00:00.000Z'', TypeError_message = v8_message\<rparr>"

text \<open>The same host with a remote file that holds \<open>sample_secrets\<close>.\<close>

definition parse_sample :: "jsstring \<Rightarrow> parse_result" where
  "parse_sample c = Returns (object_of sample_secrets)"

definition remote_full :: platform where
  "remote_full = remote_empty_key\<lparr>JSON_parse := parse_sample\<rparr>"

text \<open>
  The same host with a remote file that has no \<open>jwtSecret\<close>:
  \<open>{"databaseUrl":"postgresql://db","apiKey":"K1","redisUrl":"redis://cache",
  "stripeSecretKey":"sk_test_1"}\<close>.
\<close>

definition no_jwt_object :: json where
  "no_jwt_object =
     JsonObj [(str ''databaseUrl'', JsonStr (str ''postgresql://db'')),
              (str ''apiKey'', JsonStr (str ''K1'')),
              (str ''redisUrl'', JsonStr (str ''redis://cache'')),
              (str ''stripeSecretKey'', JsonStr (str ''sk_test_1''))]"

definition parse_no_jwt :: "jsstring \<Rightarrow> parse_result" where
  "parse_no_jwt c = Returns no_jwt_object"

definition remote_no_jwt :: platform where
  "remote_no_jwt = remote_empty_key\<lparr>JSON_parse := parse_no_jwt\<rparr>"

text \<open>A store that is ready and holds \<open>sample_secrets\<close>; and a local environment whose
  \<open>JWT_SECRET\<close> starts with a line feed.\<close>

definition ready_store :: proc where
  "ready_store =
     \<lparr>manager = \<lparr>secrets = object_of sample_secrets, isInitialized = True\<rparr>, effects = []\<rparr>"

definition local_newline :: platform where
  "local_newline =
     \<lparr>env = [''NODE_ENV'' \<mapsto> str ''development'',
             ''DATABASE_URL'' \<mapsto> str ''postgresql://db'',
             ''API_KEY'' \<mapsto> str ''K1'',
             ''JWT_SECRET'' \<mapsto> 0x0A # str ''secret-1'',
             ''REDIS_URL'' \<mapsto> str ''redis://cache'',
             ''STRIPE_SECRET_KEY'' \<mapsto> str ''sk_test_1''],
      octokit_getContent = no_host, base64_utf8 = id, JSON_parse = no_parse,
      now_iso = str ''2025-01-01T00:00:00.000Z'', TypeError_message = v8_message\<rparr>"

definition request_with :: "(string \<rightharpoonup> jsstring) \<Rightarrow> NextRequest" where
  "request_with hs = \<lparr>headers = hs, json = Inr (JsonObj [])\<rparr>"

definition ok_handler :: handler where
  "ok_handler r s =
     (Inr (NextResponse_json (JObj [(str ''status'', JStr (str ''success''))]) 200), s)"

text \<open>The states \<open>local_full\<close> and \<open>remote_full\<close> reach from \<open>fresh\<close> by one successful
  \<open>initialize\<close>.\<close>

definition loaded_local :: proc where
  "loaded_local =
     \<lparr>manager = \<lparr>secrets = object_of sample_secrets, isInitialized = True\<rparr>,
      effects = [Call_loadFromEnv]\<rparr>"

definition loaded_remote :: proc where
  "loaded_remote =
     \<lparr>manager = \<lparr>secrets = object_of sample_secrets, isInitialized = True\<rparr>,
      effects = [Call_getContent (str ''ghp_token'') (str ''acme'') (str ''config'')
                   (str ''secrets.json'')]\<rparr>"

text \<open>
  Requests: no credential header; a Bearer token; the X-API-Key header alone; a wrong
  Bearer token; and a request given the Authorization value \<open>Bearer \<close>, with nothing
  after the space, beside an X-API-Key header.
\<close>

definition no_header_request :: NextRequest where
  "no_header_request = request_with Map.empty"

definition bearer_request :: NextRequest where
  "bearer_request = request_with [''authorization'' \<mapsto> str ''Bearer K1'']"

definition xkey_request :: NextRequest where
  "xkey_request = request_with [''x-api-key'' \<mapsto> str ''K1'']"

definition wrong_request :: NextRequest where
  "wrong_request = request_with [''authorization'' \<mapsto> str ''Bearer K2'']"

definition bearer_empty_request :: NextRequest where
  "bearer_empty_request =
     request_with [''authorization'' \<mapsto> str ''Bearer '', ''x-api-key'' \<mapsto> str ''K1'']"

definition authenticate_request :: NextRequest where
  "authenticate_request =
     \<lparr>headers = Map.empty,
      json = Inr (JsonObj [(str ''action'', JsonStr (str ''authenticate''))])\<rparr>"


text \<open>Whether a string occurs in the JSON text of a value, and in the body of a response.\<close>

definition text_includes :: "jsval \<Rightarrow> jsstring \<Rightarrow> bool" where
  "text_includes v x = (case JSON_stringify v of None \<Rightarrow> False | Some t \<Rightarrow> js_includes t x)"

definition body_includes :: "NextResponse \<Rightarrow> jsstring \<Rightarrow> bool" where
  "body_includes r x = text_includes (payload r) x"


text \<open>A code unit that \<open>JSON.stringify\<close> copies as it is, wherever it stands.\<close>

definition plain_unit :: "jschar \<Rightarrow> bool" where
  "plain_unit c =
     (0x20 \<le> c \<and> c \<noteq> 0x22 \<and> c \<noteq> 0x5C \<and> \<not> is_high_surrogate c \<and> \<not> is_low_surrogate c)"




section \<open>Auxiliary facts\<close>

lemma str_eq_Nil [simp]: "(str s = []) = (s = [])"
  by (simp add: str_def)

lemma str_merge: "str a @ str b = str (a @ b)" "str a @ str b @ c = str (a @ b) @ c"
  by (simp_all add: str_def)

lemma falsy_str [simp]: "falsy (Some (str s)) = (s = [])"
  by (simp add: falsy_def)

lemma or_else_str: "s \<noteq> [] \<Longrightarrow> or_else (Some (str s)) d = str s"
  by (simp add: or_else_def)

lemma or_else_empty [simp]: "(or_else x [] = []) = falsy x"
  by (cases x) (simp_all add: or_else_def falsy_def)

text \<open>\<open>includes\<close> is the contiguous-sublist relation.\<close>

lemma js_includes_sublist: "js_includes s v = sublist v s"
  by (induction s) (auto simp: sublist_Cons_right)

lemma sublist_after: "sublist x ys \<Longrightarrow> sublist x (ps @ ys)"
proof -
  assume "sublist x ys"
  then obtain a b where "ys = a @ x @ b" by (auto simp: sublist_def)
  then have "ps @ ys = (ps @ a) @ x @ b" by simp
  then show ?thesis unfolding sublist_def by blast
qed

lemma sublist_before: "sublist x ys \<Longrightarrow> sublist x (ys @ ss)"
proof -
  assume "sublist x ys"
  then obtain a b where "ys = a @ x @ b" by (auto simp: sublist_def)
  then have "ys @ ss = a @ x @ (b @ ss)" by simp
  then show ?thesis unfolding sublist_def by blast
qed

lemma sublist_join: "x \<in> set xs \<Longrightarrow> sublist x (join sep xs)"
proof (induction sep xs rule: join.induct)
  case (1 sep)
  then show ?case by simp
next
  case (2 sep y)
  then show ?case by simp
next
  case (3 sep a b bs)
  show ?case
  proof (cases "x = a")
    case True
    then show ?thesis using sublist_appendI [of a "[]"] by simp
  next
    case False
    with 3 have "sublist x (join sep (b # bs))" by simp
    then have "sublist x (a @ sep @ join sep (b # bs))"
      by (intro sublist_after)
    then show ?thesis by simp
  qed
qed

lemma loads_emit [simp]: "loads (emit e s) = (if is_load e then Suc (loads s) else loads s)"
  by (simp add: loads_def emit_def)

lemma loads_manager_update [simp]: "loads (s\<lparr>manager := m\<rparr>) = loads s"
  by (simp add: loads_def)

lemma manager_emit [simp]: "manager (emit e s) = manager s"
  by (simp add: emit_def)

text \<open>The object of a record: it is truthy and not \<open>null\<close>, and its properties are the
  fields.\<close>

lemma truthy_object_of [simp]: "truthy (object_of r)" "object_of r \<noteq> JsonNull"
  by (simp_all add: object_of_def)

lemma get_property_object_of:
  "get_property (object_of r) (str ''databaseUrl'') = Some (JsonStr (databaseUrl r))"
  "get_property (object_of r) (str ''apiKey'') = Some (JsonStr (apiKey r))"
  "get_property (object_of r) (str ''jwtSecret'') = Some (JsonStr (jwtSecret r))"
  "get_property (object_of r) (str ''redisUrl'') = Some (JsonStr (redisUrl r))"
  "get_property (object_of r) (str ''stripeSecretKey'') = Some (JsonStr (stripeSecretKey r))"
  by (simp_all add: object_of_def str_def)

section \<open>The secrets manager\<close>

subsection \<open>Local mode\<close>

text \<open>The names \<open>loadFromEnv\<close> collects are those of the fields whose variable is unset
  or empty.\<close>

lemma missingSecrets_env: "missingSecrets (secrets_from_env p) = missing_fields p"
  by (simp add: missingSecrets_def missing_fields_def entries_def secrets_from_env_def
      field_variables_def)

lemma initialize_local:
  assumes "env p ''NODE_ENV'' \<noteq> Some (str ''production'')" and "\<not> isInitialized (manager s)"
  shows "initialize p s =
     (let s1 = emit Call_loadFromEnv
                 (s\<lparr>manager := (manager s)\<lparr>secrets := object_of (secrets_from_env p)\<rparr>\<rparr>)
      in if missing_fields p \<noteq> []
         then (Inl (Error (str ''Missing required secrets: ''
                            @ join (str '', '') (missing_fields p))), s1)
         else (Inr (), s1\<lparr>manager := (manager s1)\<lparr>isInitialized := True\<rparr>\<rparr>))"
  using assms by (simp add: initialize_def loadFromEnv_def missingSecrets_env Let_def)

lemma distinct_missing_fields: "distinct (missing_fields p)"
proof -
  have "distinct (map fst field_variables)"
    by (simp add: field_variables_def str_def)
  then show ?thesis
    unfolding missing_fields_def by (rule distinct_map_filter)
qed

lemma local_partial_mode: "env local_partial ''NODE_ENV'' \<noteq> Some (str ''production'')"
  by (simp add: local_partial_def str_def)

lemma missing_local_partial:
  "missing_fields local_partial = [str ''apiKey'', str ''jwtSecret'']"
  by (simp add: missing_fields_def local_partial_def field_variables_def falsy_def)

lemma local_partial_secrets:
  "secrets_from_env local_partial = sample_secrets\<lparr>apiKey := [], jwtSecret := []\<rparr>"
  by (simp add: secrets_from_env_def local_partial_def sample_secrets_def or_else_def)

lemma local_full_mode: "env local_full ''NODE_ENV'' \<noteq> Some (str ''production'')"
  by (simp add: local_full_def str_def)

lemma local_full_missing: "missing_fields local_full = []"
  by (simp add: missing_fields_def local_full_def field_variables_def falsy_def)

lemma local_full_secrets: "secrets_from_env local_full = sample_secrets"
  by (simp add: secrets_from_env_def local_full_def sample_secrets_def or_else_def)

lemma initialize_local_full: "initialize local_full fresh = (Inr (), loaded_local)"
  using initialize_local [OF local_full_mode, of fresh]
  by (simp add: local_full_missing local_full_secrets fresh_def emit_def Let_def loaded_local_def)

text \<open>
  Claim C8. In local mode, when N of the five fields are unset or empty and N is at least
  one, \<open>initialize\<close> fails, and the message of its error is
  \<open>Missing required secrets: \<close> followed by the names of all N fields, in the order of
  the record and separated by \<open>, \<close>: each of the N names occurs in the message, the names
  are distinct, and the manager is left not initialized.
\<close>

theorem local_load_reports_all_missing:
  assumes "env p ''NODE_ENV'' \<noteq> Some (str ''production'')"
    and "\<not> isInitialized (manager s)"
    and "missing_fields p \<noteq> []"
  shows "fst (initialize p s) =
           Inl (Error (str ''Missing required secrets: '' @ join (str '', '') (missing_fields p)))
         \<and> (\<forall>k \<in> set (missing_fields p).
               \<exists>e. fst (initialize p s) = Inl e \<and> js_includes (message e) k)
         \<and> distinct (missing_fields p)
         \<and> \<not> isInitialized (manager (snd (initialize p s)))"
proof -
  have "sublist k (str ''Missing required secrets: '' @ join (str '', '') (missing_fields p))"
    if "k \<in> set (missing_fields p)" for k
    using that by (intro sublist_after sublist_join)
  with assms show ?thesis
    by (simp add: initialize_local Let_def emit_def js_includes_sublist distinct_missing_fields)
qed

theorem local_load_reports_all_missing_witness:
  "env local_partial ''NODE_ENV'' \<noteq> Some (str ''production'')
   \<and> \<not> isInitialized (manager fresh)
   \<and> missing_fields local_partial = [str ''apiKey'', str ''jwtSecret'']
   \<and> fst (initialize local_partial fresh) =
       Inl (Error (str ''Missing required secrets: apiKey, jwtSecret''))
   \<and> js_includes (str ''Missing required secrets: apiKey, jwtSecret'') (str ''apiKey'')
   \<and> js_includes (str ''Missing required secrets: apiKey, jwtSecret'') (str ''jwtSecret'')"
proof -
  have h2: "\<not> isInitialized (manager fresh)" by (simp add: fresh_def)
  have h3: "missing_fields local_partial \<noteq> []" by (simp add: missing_local_partial)
  have m: "str ''Missing required secrets: '' @ join (str '', '') (missing_fields local_partial)
           = str ''Missing required secrets: apiKey, jwtSecret''"
    by (simp add: missing_local_partial str_merge)
  have i: "js_includes (str ''Missing required secrets: apiKey, jwtSecret'') (str ''apiKey'')"
    "js_includes (str ''Missing required secrets: apiKey, jwtSecret'') (str ''jwtSecret'')"
    by (simp_all add: str_def)
  from local_load_reports_all_missing [OF local_partial_mode h2 h3]
  have "fst (initialize local_partial fresh) =
          Inl (Error (str ''Missing required secrets: '' @ join (str '', '') (missing_fields local_partial)))"
    by (rule conjunct1)
  then have "fst (initialize local_partial fresh) =
          Inl (Error (str ''Missing required secrets: apiKey, jwtSecret''))"
    by (simp only: m)
  with local_partial_mode h2 missing_local_partial i show ?thesis by simp
qed

text \<open>When a local load succeeds, every field of the stored value is a non-empty string.\<close>

lemma local_success_nonempty:
  assumes "env p ''NODE_ENV'' \<noteq> Some (str ''production'')" and "\<not> isInitialized (manager s)"
    and "initialize p s = (Inr u, s1)"
  shows "secrets (manager s1) = object_of (secrets_from_env p)
         \<and> all_fields_nonempty (secrets (manager s1))"
proof -
  from assms have m: "missing_fields p = []"
    and s: "secrets (manager s1) = object_of (secrets_from_env p)"
    by (auto simp: initialize_local Let_def split: if_splits)
  from m have "missingSecrets (secrets_from_env p) = []" by (simp add: missingSecrets_env)
  then have "all_fields_nonempty (object_of (secrets_from_env p))"
    by (simp add: missingSecrets_def entries_def all_fields_nonempty_def
        get_property_object_of nonempty_string_def split: if_splits)
  with s show ?thesis by simp
qed

text \<open>
  Claim C1. The claim asks that \<open>getSecrets()\<close> throw whenever the manager is not ready,
  in particular after a local \<open>initialize()\<close> that failed for missing fields. The code
  guards on the stored value alone, and \<open>loadFromEnv\<close> stores the record before it
  validates it: with \<open>API_KEY\<close> unset and \<open>JWT_SECRET\<close> empty, \<open>initialize()\<close> throws and
  leaves the flag false, and \<open>getSecrets()\<close> then returns the record with its two empty
  fields.
\<close>

theorem getSecrets_after_failed_local_load:
  "initialize local_partial fresh =
     (Inl (Error (str ''Missing required secrets: apiKey, jwtSecret'')),
      \<lparr>manager = \<lparr>secrets = object_of (sample_secrets\<lparr>apiKey := [], jwtSecret := []\<rparr>),
                  isInitialized = False\<rparr>,
       effects = [Call_loadFromEnv]\<rparr>)
   \<and> SecretsManager_getSecrets (manager (snd (initialize local_partial fresh))) =
       Inr (object_of (sample_secrets\<lparr>apiKey := [], jwtSecret := []\<rparr>))"
proof -
  have "\<not> isInitialized (manager fresh)" by (simp add: fresh_def)
  then have "initialize local_partial fresh =
     (Inl (Error (str ''Missing required secrets: apiKey, jwtSecret'')),
      \<lparr>manager = \<lparr>secrets = object_of (sample_secrets\<lparr>apiKey := [], jwtSecret := []\<rparr>),
                  isInitialized = False\<rparr>,
       effects = [Call_loadFromEnv]\<rparr>)"
    using initialize_local [OF local_partial_mode, of fresh]
    by (simp add: missing_local_partial local_partial_secrets str_merge Let_def emit_def fresh_def)
  then show ?thesis by (simp add: SecretsManager_getSecrets_def)
qed

text \<open>While nothing is stored, the method does throw.\<close>

lemma getSecrets_without_record:
  "secrets m = JsonNull \<Longrightarrow> SecretsManager_getSecrets m = Inl NotInitializedError"
  by (simp add: SecretsManager_getSecrets_def)

subsection \<open>Loading once\<close>

lemma loadFromEnv_Inr:
  assumes "loadFromEnv p s = (Inr u, s1)"
  shows "loads s1 = Suc (loads s) \<and> isInitialized (manager s1) = isInitialized (manager s)"
  using assms
  by (auto simp: loadFromEnv_def Let_def split: if_splits)

lemma loadFromGitHub_try_Inr:
  assumes "loadFromGitHub_try p s = (Inr u, s1)"
  shows "loads s1 = Suc (loads s) \<and> isInitialized (manager s1) = isInitialized (manager s)"
  using assms
  by (auto simp: loadFromGitHub_try_def Let_def
      split: if_splits fetch_result.splits option.splits parse_result.splits)

lemma loadFromGitHub_Inr:
  assumes "loadFromGitHub p s = (Inr u, s1)"
  shows "loads s1 = Suc (loads s) \<and> isInitialized (manager s1) = isInitialized (manager s)"
proof -
  from assms have "loadFromGitHub_try p s = (Inr u, s1)"
    by (auto simp: loadFromGitHub_def split: prod.splits sum.splits)
  then show ?thesis by (rule loadFromGitHub_try_Inr)
qed

lemma initialize_ready: "isInitialized (manager s) \<Longrightarrow> initialize p s = (Inr (), s)"
  by (simp add: initialize_def)

lemma remote_full_mode: "env remote_full ''NODE_ENV'' = Some (str ''production'')"
  by (simp add: remote_full_def remote_empty_key_def)

lemma initialize_remote_full: "initialize remote_full fresh = (Inr (), loaded_remote)"
proof -
  have t: "loadFromGitHub_try remote_full fresh =
     (Inr (),
      \<lparr>manager = \<lparr>secrets = object_of sample_secrets, isInitialized = False\<rparr>,
       effects = [Call_getContent (str ''ghp_token'') (str ''acme'') (str ''config'')
                    (str ''secrets.json'')]\<rparr>)"
    by (simp add: loadFromGitHub_try_def remote_full_def remote_empty_key_def remote_file_def
        parse_sample_def Let_def or_else_str emit_def fresh_def or_else_def [of None])
  show ?thesis
    by (simp add: initialize_def remote_full_mode loadFromGitHub_def t)
       (simp add: fresh_def loaded_remote_def)
qed

text \<open>
  Claim C7. From a manager that is not yet initialized, in either mode: when the first
  \<open>initialize()\<close> succeeds it has performed exactly one load (one run of \<open>loadFromEnv\<close> or
  one remote fetch), and the second call returns at once, without an error and leaving
  the whole state, trace included, as the first call left it.
\<close>

theorem initialize_twice_loads_once:
  assumes "\<not> isInitialized (manager s)" and "initialize p s = (Inr u, s1)"
  shows "loads s1 = Suc (loads s) \<and> isInitialized (manager s1)
         \<and> initialize p s1 = (Inr (), s1) \<and> loads (snd (initialize p s1)) = Suc (loads s)"
proof -
  let ?load = "if env p ''NODE_ENV'' = Some (str ''production'')
               then loadFromGitHub p s else loadFromEnv p s"
  obtain r s0 where l: "?load = (r, s0)" by (cases ?load)
  with assms have r: "r = Inr ()"
    and s1: "s1 = s0\<lparr>manager := (manager s0)\<lparr>isInitialized := True\<rparr>\<rparr>"
    by (auto simp: initialize_def split: sum.splits)
  from l r have "loads s0 = Suc (loads s)"
    using loadFromGitHub_Inr [of p s "()" s0] loadFromEnv_Inr [of p s "()" s0]
    by (auto split: if_splits)
  with s1 have a: "loads s1 = Suc (loads s)" and b: "isInitialized (manager s1)" by simp_all
  from b have "initialize p s1 = (Inr (), s1)" by (rule initialize_ready)
  with a b show ?thesis by simp
qed

theorem initialize_twice_loads_once_witness:
  "\<not> isInitialized (manager fresh)
   \<and> initialize local_full fresh = (Inr (), loaded_local)
   \<and> initialize remote_full fresh = (Inr (), loaded_remote)
   \<and> loads fresh = 0 \<and> loads loaded_local = 1 \<and> loads loaded_remote = 1
   \<and> initialize local_full loaded_local = (Inr (), loaded_local)
   \<and> initialize remote_full loaded_remote = (Inr (), loaded_remote)"
proof -
  have h: "\<not> isInitialized (manager fresh)" by (simp add: fresh_def)
  have z: "loads fresh = 0" by (simp add: loads_def fresh_def)
  from initialize_twice_loads_once [OF h initialize_local_full]
    initialize_twice_loads_once [OF h initialize_remote_full]
  show ?thesis
    by (simp add: initialize_local_full initialize_remote_full z h)
qed

subsection \<open>Remote mode\<close>

lemma remote_empty_key_mode: "env remote_empty_key ''NODE_ENV'' = Some (str ''production'')"
  by (simp add: remote_empty_key_def)

text \<open>
  Claim C2. The claim asks that a successful \<open>initialize()\<close> leave every field of the
  stored record non-empty in either mode. \<open>loadFromEnv\<close> validates the record (lemma
  \<open>local_success_nonempty\<close>); \<open>loadFromGitHub\<close> stores whatever \<open>JSON.parse\<close> returns and
  validates nothing. With a remote file whose \<open>apiKey\<close> is the empty string,
  \<open>initialize()\<close> succeeds, the manager is ready, and the stored \<open>apiKey\<close> is empty.
\<close>

theorem remote_load_keeps_empty_field:
  "initialize remote_empty_key fresh =
     (Inr (),
      \<lparr>manager = \<lparr>secrets = object_of (sample_secrets\<lparr>apiKey := []\<rparr>), isInitialized = True\<rparr>,
       effects = [Call_getContent (str ''ghp_token'') (str ''acme'') (str ''config'')
                    (str ''secrets.json'')]\<rparr>)
   \<and> isReady (manager (snd (initialize remote_empty_key fresh)))
   \<and> get_property (object_of (sample_secrets\<lparr>apiKey := []\<rparr>)) (str ''apiKey'') = Some (JsonStr [])
   \<and> \<not> all_fields_nonempty (object_of (sample_secrets\<lparr>apiKey := []\<rparr>))"
proof -
  have t: "loadFromGitHub_try remote_empty_key fresh =
     (Inr (),
      \<lparr>manager = \<lparr>secrets = object_of (sample_secrets\<lparr>apiKey := []\<rparr>), isInitialized = False\<rparr>,
       effects = [Call_getContent (str ''ghp_token'') (str ''acme'') (str ''config'')
                    (str ''secrets.json'')]\<rparr>)"
    by (simp add: loadFromGitHub_try_def remote_empty_key_def remote_file_def
        parse_empty_key_def Let_def or_else_str emit_def fresh_def or_else_def [of None])
  have "initialize remote_empty_key fresh =
     (Inr (),
      \<lparr>manager = \<lparr>secrets = object_of (sample_secrets\<lparr>apiKey := []\<rparr>), isInitialized = True\<rparr>,
       effects = [Call_getContent (str ''ghp_token'') (str ''acme'') (str ''config'')
                    (str ''secrets.json'')]\<rparr>)"
    by (simp add: initialize_def remote_empty_key_mode loadFromGitHub_def t)
       (simp add: fresh_def)
  then show ?thesis
    by (simp add: isReady_def all_fields_nonempty_def get_property_object_of nonempty_string_def)
qed

lemma loadFromGitHub_try_missing:
  assumes "falsy (env p ''GITHUB_TOKEN'') \<or> falsy (env p ''GITHUB_REPO_OWNER'')
           \<or> falsy (env p ''GITHUB_REPO_NAME'')"
  shows "loadFromGitHub_try p s = (Inl (Error (str ''GitHub configuration missing. Please set GITHUB_TOKEN, GITHUB_REPO_OWNER, and GITHUB_REPO_NAME'')), s)"
  using assms by (simp add: loadFromGitHub_try_def Let_def)

lemma remote_no_token_mode: "env remote_no_token ''NODE_ENV'' = Some (str ''production'')"
  by (simp add: remote_no_token_def)

lemma remote_no_token_falsy: "falsy (env remote_no_token ''GITHUB_TOKEN'')"
  by (simp add: remote_no_token_def falsy_def)

text \<open>
  Claim C3, as stated, fails. With \<open>GITHUB_TOKEN\<close> unset and the owner and the name set,
  the error \<open>initialize()\<close> throws has the message
  \<open>Failed to initialize secrets from GitHub\<close>, in which \<open>GITHUB_TOKEN\<close> does not occur;
  and the only diagnostic, written to the console, names \<open>GITHUB_REPO_OWNER\<close> although
  that parameter is set.
\<close>

theorem remote_missing_token_not_named:
  "falsy (env remote_no_token ''GITHUB_TOKEN'')
   \<and> \<not> falsy (env remote_no_token ''GITHUB_REPO_OWNER'')
   \<and> fst (initialize remote_no_token fresh) =
       Inl (Error (str ''Failed to initialize secrets from GitHub''))
   \<and> \<not> js_includes (str ''Failed to initialize secrets from GitHub'') (str ''GITHUB_TOKEN'')
   \<and> effects (snd (initialize remote_no_token fresh)) =
       [Console_error (str ''Error loading secrets from GitHub:'')
          (Error (str ''GitHub configuration missing. Please set GITHUB_TOKEN, GITHUB_REPO_OWNER, and GITHUB_REPO_NAME''))]
   \<and> js_includes (str ''GitHub configuration missing. Please set GITHUB_TOKEN, GITHUB_REPO_OWNER, and GITHUB_REPO_NAME'') (str ''GITHUB_REPO_OWNER'')"
proof -
  have f: "falsy (env remote_no_token ''GITHUB_TOKEN'')
         \<or> falsy (env remote_no_token ''GITHUB_REPO_OWNER'')
         \<or> falsy (env remote_no_token ''GITHUB_REPO_NAME'')"
    by (simp add: remote_no_token_falsy)
  have i: "initialize remote_no_token fresh =
       (Inl (Error (str ''Failed to initialize secrets from GitHub'')),
        \<lparr>manager = \<lparr>secrets = JsonNull, isInitialized = False\<rparr>,
         effects = [Console_error (str ''Error loading secrets from GitHub:'')
                    (Error (str ''GitHub configuration missing. Please set GITHUB_TOKEN, GITHUB_REPO_OWNER, and GITHUB_REPO_NAME''))]\<rparr>)"
    by (simp add: initialize_def loadFromGitHub_def loadFromGitHub_try_missing [OF f]
        remote_no_token_mode)
       (simp add: emit_def fresh_def)
  have o: "\<not> falsy (env remote_no_token ''GITHUB_REPO_OWNER'')"
    by (simp add: remote_no_token_def)
  have n: "\<not> js_includes (str ''Failed to initialize secrets from GitHub'') (str ''GITHUB_TOKEN'')"
    by (simp add: str_def)
  have y: "js_includes (str ''GitHub configuration missing. Please set GITHUB_TOKEN, GITHUB_REPO_OWNER, and GITHUB_REPO_NAME'') (str ''GITHUB_REPO_OWNER'')"
    by (simp add: str_def)
  from i o n y remote_no_token_falsy show ?thesis by simp
qed

text \<open>
  Claim C3, amended. In remote mode, whenever at least one of the three required
  parameters is absent or empty, \<open>initialize()\<close> performs no fetch, leaves the manager
  not initialized, and fails with the generic error
  \<open>Failed to initialize secrets from GitHub\<close>, whichever parameters are missing. The
  only diagnostic is one fixed text that lists all three parameters; it is written to the
  console and not carried by the error.
\<close>

theorem remote_missing_parameters_generic_failure:
  assumes "env p ''NODE_ENV'' = Some (str ''production'')"
    and "\<not> isInitialized (manager s)"
    and "falsy (env p ''GITHUB_TOKEN'') \<or> falsy (env p ''GITHUB_REPO_OWNER'')
         \<or> falsy (env p ''GITHUB_REPO_NAME'')"
  shows "initialize p s =
           (Inl (Error (str ''Failed to initialize secrets from GitHub'')),
            emit (Console_error (str ''Error loading secrets from GitHub:'')
                    (Error (str ''GitHub configuration missing. Please set GITHUB_TOKEN, GITHUB_REPO_OWNER, and GITHUB_REPO_NAME''))) s)
         \<and> loads (snd (initialize p s)) = loads s
         \<and> \<not> isInitialized (manager (snd (initialize p s)))"
  using assms
  by (simp add: initialize_def loadFromGitHub_def loadFromGitHub_try_missing)

theorem remote_missing_parameters_generic_failure_witness:
  "env remote_no_token ''NODE_ENV'' = Some (str ''production'')
   \<and> \<not> isInitialized (manager fresh)
   \<and> falsy (env remote_no_token ''GITHUB_TOKEN'')
   \<and> initialize remote_no_token fresh =
       (Inl (Error (str ''Failed to initialize secrets from GitHub'')),
        \<lparr>manager = \<lparr>secrets = JsonNull, isInitialized = False\<rparr>,
         effects = [Console_error (str ''Error loading secrets from GitHub:'')
                    (Error (str ''GitHub configuration missing. Please set GITHUB_TOKEN, GITHUB_REPO_OWNER, and GITHUB_REPO_NAME''))]\<rparr>)"
proof -
  have h: "\<not> isInitialized (manager fresh)" by (simp add: fresh_def)
  have f: "falsy (env remote_no_token ''GITHUB_TOKEN'')
         \<or> falsy (env remote_no_token ''GITHUB_REPO_OWNER'')
         \<or> falsy (env remote_no_token ''GITHUB_REPO_NAME'')"
    by (simp add: remote_no_token_falsy)
  from remote_missing_parameters_generic_failure [OF remote_no_token_mode h f]
  show ?thesis
    by (simp add: remote_no_token_mode h remote_no_token_falsy) (simp add: emit_def fresh_def)
qed

section \<open>The request gate\<close>

subsection \<open>Header values\<close>

text \<open>A value that \<open>Headers_get\<close> returns does not end in whitespace, so a Bearer token
  that is there is never empty.\<close>

lemma normalize_last:
  assumes "normalize v \<noteq> []"
  shows "\<not> is_http_whitespace (last (normalize v))"
proof -
  let ?d = "dropWhile is_http_whitespace (rev (dropWhile is_http_whitespace v))"
  from assms have d: "?d \<noteq> []" by (simp add: normalize_def)
  then have "\<not> is_http_whitespace (hd ?d)" by (rule hd_dropWhile)
  moreover from d have "last (normalize v) = hd ?d"
    by (simp add: normalize_def last_rev)
  ultimately show ?thesis by simp
qed

lemma length_Bearer: "length (str ''Bearer '') = 7"
  by (simp add: str_def)

lemma last_Bearer: "is_http_whitespace (last (str ''Bearer ''))"
  by (simp add: str_def is_http_whitespace_def)

lemma prefix_drop_Nil: "prefix a h \<Longrightarrow> drop (length a) h = [] \<Longrightarrow> h = a"
  by (auto simp: prefix_def)

lemma Headers_get_not_Bearer: "Headers_get r name \<noteq> Some (str ''Bearer '')"
proof
  assume a: "Headers_get r name = Some (str ''Bearer '')"
  then obtain v where "normalize v = str ''Bearer ''"
    by (auto simp: Headers_get_def)
  moreover have "str ''Bearer '' \<noteq> []" by simp
  ultimately show False
    using normalize_last [of v] last_Bearer by simp
qed

lemma bearer_token_nonempty: "bearer_token r \<noteq> Some []"
proof
  assume "bearer_token r = Some []"
  then obtain h where h: "Headers_get r ''authorization'' = Some h"
    and p: "prefix (str ''Bearer '') h" and d: "drop 7 h = []"
    by (auto simp: bearer_token_def split: option.splits if_splits)
  from p d have "h = str ''Bearer ''"
    using prefix_drop_Nil [of "str ''Bearer ''" h] by (simp add: length_Bearer)
  with h show False by (simp add: Headers_get_not_Bearer)
qed

lemma normalize_Bearer: "normalize (str ''Bearer '') = str ''Bearer''"
  by (simp add: normalize_def str_def is_http_whitespace_def)

lemma normalize_plain:
  "normalize (str ''K1'') = str ''K1''"
  "normalize (str ''Bearer K1'') = str ''Bearer K1''"
  "normalize (str ''Bearer K2'') = str ''Bearer K2''"
  by (simp_all add: normalize_def str_def is_http_whitespace_def)

subsection \<open>The credential\<close>

lemma validateApiKey_missing:
  "falsy (providedApiKey r) \<Longrightarrow>
   validateApiKey p r s =
     (\<lparr>isValid = False, request = as_AuthenticatedRequest r, response = Some MissingCredential\<rparr>, s)"
  by (simp add: validateApiKey_def)

lemma providedApiKey_cases:
  "providedApiKey r =
     (case bearer_token r of None \<Rightarrow> Headers_get r ''x-api-key'' | Some t \<Rightarrow> Some t)"
  by (simp add: providedApiKey_def bearer_token_def Let_def split: option.splits)

lemma effects_initialize: "\<exists>es. effects (snd (initialize p s)) = effects s @ es"
  by (auto simp: initialize_def loadFromEnv_def loadFromGitHub_def loadFromGitHub_try_def
      Let_def emit_def
      split: if_splits prod.splits sum.splits fetch_result.splits option.splits parse_result.splits)

lemma getSecrets_traced:
  "\<exists>es. effects (snd (getSecrets p s)) = effects s @ Call_getSecrets # es"
proof (cases "isReady (manager s)")
  case True
  then show ?thesis by (simp add: getSecrets_def Let_def emit_def)
next
  case False
  obtain es where "effects (snd (initialize p (emit Call_getSecrets s)))
                   = effects (emit Call_getSecrets s) @ es"
    using effects_initialize by blast
  with False show ?thesis
    by (auto simp: getSecrets_def Let_def emit_def split: prod.splits sum.splits)
qed

text \<open>
  Claim C6. When neither the Bearer token of the Authorization header nor the X-API-Key
  header is a non-empty string, the gate answers with its 401 MissingCredential rejection
  and the state of the process is the one it started from: the trace, which records
  every call of \<open>getSecrets\<close> (lemma \<open>getSecrets_traced\<close>) and every load, has not
  grown, so \<open>getSecrets\<close> was not called and nothing was loaded.
\<close>

theorem no_credential_rejected_before_any_load:
  assumes "falsy (bearer_token r)" and "falsy (Headers_get r ''x-api-key'')"
  shows "validateApiKey p r s =
           (\<lparr>isValid = False, request = as_AuthenticatedRequest r,
             response = Some MissingCredential\<rparr>, s)
         \<and> withApiKeyAuth h p r s = (Inr (Some MissingCredential), s)
         \<and> effects (snd (withApiKeyAuth h p r s)) = effects s"
proof -
  from assms have "falsy (providedApiKey r)"
    by (auto simp: providedApiKey_cases falsy_def split: option.splits)
  then have v: "validateApiKey p r s =
           (\<lparr>isValid = False, request = as_AuthenticatedRequest r,
             response = Some MissingCredential\<rparr>, s)"
    by (rule validateApiKey_missing)
  then show ?thesis by (simp add: withApiKeyAuth_def)
qed

theorem no_credential_rejected_before_any_load_witness:
  "falsy (bearer_token no_header_request)
   \<and> falsy (Headers_get no_header_request ''x-api-key'')
   \<and> withApiKeyAuth ok_handler local_full no_header_request fresh =
       (Inr (Some MissingCredential), fresh)"
proof -
  have a: "falsy (bearer_token no_header_request)"
    by (simp add: bearer_token_def Headers_get_def no_header_request_def request_with_def
        falsy_def)
  have b: "falsy (Headers_get no_header_request ''x-api-key'')"
    by (simp add: Headers_get_def no_header_request_def request_with_def falsy_def)
  from no_credential_rejected_before_any_load
         [OF a b, where h = ok_handler and p = local_full and s = fresh] a b
  show ?thesis by simp
qed

subsection \<open>The comparison\<close>

lemma get_property_truthy: "get_property v k = Some x \<Longrightarrow> truthy v \<and> v \<noteq> JsonNull"
  by (cases v) simp_all

lemma getSecrets_ready:
  assumes "isReady (manager s)" and "truthy (secrets (manager s))"
  shows "getSecrets p s = (Inr (secrets (manager s)), emit Call_getSecrets s)"
  using assms by (simp add: getSecrets_def Let_def SecretsManager_getSecrets_def)

text \<open>
  Claim C5. For a request whose candidate credential \<open>k\<close> is non-empty, on a ready store
  whose configured key is set (a truthy value: a non-empty string, when it is a string):
  when the configured key is the very string \<open>k\<close>, the gate validates the request, calls
  the handler once, on the request with \<open>k\<close> and the stored record attached, and returns
  what the handler returns; when it is anything else, the gate returns the 401
  InvalidCredential response and the trace gains the call of \<open>getSecrets\<close> and no call
  of the handler.
\<close>

theorem gate_forwards_iff_key_matches:
  assumes "providedApiKey r = Some k" and "k \<noteq> []"
    and "isReady (manager s)"
    and "get_property (secrets (manager s)) (str ''apiKey'') = Some key" and "truthy key"
  shows "(key = JsonStr k \<longrightarrow>
            validateApiKey p r s =
              (\<lparr>isValid = True,
                request = (as_AuthenticatedRequest r)
                  \<lparr>req_apiKey := Some k, req_secrets := Some (secrets (manager s))\<rparr>,
                response = None\<rparr>, emit Call_getSecrets s)
          \<and> withApiKeyAuth h p r s =
              (case h ((as_AuthenticatedRequest r)
                         \<lparr>req_apiKey := Some k, req_secrets := Some (secrets (manager s))\<rparr>)
                      (emit (Call_handler ((as_AuthenticatedRequest r)
                                \<lparr>req_apiKey := Some k, req_secrets := Some (secrets (manager s))\<rparr>))
                         (emit Call_getSecrets s)) of
                 (Inl e, s2) \<Rightarrow> (Inl e, s2)
               | (Inr resp, s2) \<Rightarrow> (Inr (Some resp), s2)))
       \<and> (key \<noteq> JsonStr k \<longrightarrow>
            withApiKeyAuth h p r s = (Inr (Some InvalidCredential), emit Call_getSecrets s))"
proof -
  from assms(4) have "truthy (secrets (manager s))" by (simp add: get_property_truthy)
  with assms(3) have g: "getSecrets p s = (Inr (secrets (manager s)), emit Call_getSecrets s)"
    by (rule getSecrets_ready)
  from assms show ?thesis
    by (auto simp: withApiKeyAuth_def validateApiKey_def g falsy_def truthy_opt_def)
qed

lemma ready_store_ready: "isReady (manager ready_store)"
  by (simp add: ready_store_def isReady_def)

lemma ready_store_secrets: "secrets (manager ready_store) = object_of sample_secrets"
  by (simp add: ready_store_def)

lemma ready_store_apiKey:
  "get_property (secrets (manager ready_store)) (str ''apiKey'') = Some (JsonStr (str ''K1''))"
  by (simp add: ready_store_secrets get_property_object_of sample_secrets_def)

lemma provided_bearer_request: "providedApiKey bearer_request = Some (str ''K1'')"
  by (simp add: providedApiKey_def Headers_get_def bearer_request_def request_with_def
      normalize_plain)
     (simp add: str_def)

lemma provided_wrong_request: "providedApiKey wrong_request = Some (str ''K2'')"
  by (simp add: providedApiKey_def Headers_get_def wrong_request_def request_with_def
      normalize_plain)
     (simp add: str_def)

theorem gate_forwards_iff_key_matches_witness:
  "providedApiKey bearer_request = Some (str ''K1'')
   \<and> providedApiKey wrong_request = Some (str ''K2'')
   \<and> isReady (manager ready_store)
   \<and> get_property (secrets (manager ready_store)) (str ''apiKey'') = Some (JsonStr (str ''K1''))
   \<and> withApiKeyAuth ok_handler local_full bearer_request ready_store =
       (Inr (Some (NextResponse_json (JObj [(str ''status'', JStr (str ''success''))]) 200)),
        emit (Call_handler ((as_AuthenticatedRequest bearer_request)
                \<lparr>req_apiKey := Some (str ''K1''),
                 req_secrets := Some (object_of sample_secrets)\<rparr>))
          (emit Call_getSecrets ready_store))
   \<and> withApiKeyAuth ok_handler local_full wrong_request ready_store =
       (Inr (Some InvalidCredential), emit Call_getSecrets ready_store)"
proof -
  have k1: "str ''K1'' \<noteq> []" and k2: "str ''K2'' \<noteq> []" by simp_all
  have t: "truthy (JsonStr (str ''K1''))" by simp
  have ne: "JsonStr (str ''K1'') \<noteq> JsonStr (str ''K2'')" by (simp add: str_def)
  from gate_forwards_iff_key_matches
         [OF provided_bearer_request k1 ready_store_ready ready_store_apiKey t,
          where h = ok_handler and p = local_full]
  have m: "withApiKeyAuth ok_handler local_full bearer_request ready_store =
       (Inr (Some (NextResponse_json (JObj [(str ''status'', JStr (str ''success''))]) 200)),
        emit (Call_handler ((as_AuthenticatedRequest bearer_request)
                \<lparr>req_apiKey := Some (str ''K1''),
                 req_secrets := Some (object_of sample_secrets)\<rparr>))
          (emit Call_getSecrets ready_store))"
    by (simp add: ok_handler_def ready_store_secrets)
  from gate_forwards_iff_key_matches
         [OF provided_wrong_request k2 ready_store_ready ready_store_apiKey t,
          where h = ok_handler and p = local_full] ne
  have w: "withApiKeyAuth ok_handler local_full wrong_request ready_store =
       (Inr (Some InvalidCredential), emit Call_getSecrets ready_store)"
    by simp
  from m w provided_bearer_request provided_wrong_request ready_store_ready ready_store_apiKey
  show ?thesis by (simp only: simp_thms)
qed

subsection \<open>Extraction\<close>

lemma Missing_neq:
  "MissingCredential \<noteq> ConfigurationUnavailable"
  "MissingCredential \<noteq> ServerMisconfigured"
  "MissingCredential \<noteq> InvalidCredential"
  "ConfigurationUnavailable \<noteq> MissingCredential"
  "ServerMisconfigured \<noteq> MissingCredential"
  "InvalidCredential \<noteq> MissingCredential"
  by (simp_all add: MissingCredential_def ConfigurationUnavailable_def ServerMisconfigured_def
      InvalidCredential_def NextResponse_json_def error_payload_def str_def)

lemma validateApiKey_missing_iff:
  "(response (fst (validateApiKey p r s)) = Some MissingCredential) = falsy (providedApiKey r)"
  by (auto simp: validateApiKey_def Missing_neq split: prod.splits sum.splits)

lemma provided_is_first_non_empty:
  "falsy (providedApiKey r) = (spec_credential r = None)"
  "\<not> falsy (providedApiKey r) \<Longrightarrow> providedApiKey r = spec_credential r"
  using bearer_token_nonempty [of r]
  by (auto simp: providedApiKey_cases spec_credential_def falsy_def split: option.splits)

lemma provided_after_bare_Bearer:
  assumes "headers r ''authorization'' = Some (str ''Bearer '')"
  shows "providedApiKey r = Headers_get r ''x-api-key''"
proof -
  from assms have "Headers_get r ''authorization'' = Some (str ''Bearer'')"
    by (simp add: Headers_get_def normalize_Bearer)
  moreover have "\<not> prefix (str ''Bearer '') (str ''Bearer'')"
    by (simp add: str_def)
  ultimately show ?thesis by (simp add: providedApiKey_def Let_def)
qed

text \<open>
  Claim C4. The candidate the gate extracts is the Bearer token of the Authorization
  header when there is one, and the X-API-Key header otherwise; it is the first
  non-empty result of the two strategies, and the gate rejects with 401
  MissingCredential exactly when neither yields a non-empty string. In particular a
  request given the Authorization value \<open>Bearer \<close> and a non-empty X-API-Key header goes
  on with the X-API-Key value and is not rejected as missing a credential: the
  \<open>Headers\<close> object keeps that Authorization value as \<open>Bearer\<close>, which does not start
  with \<open>Bearer \<close>.
\<close>

theorem gate_missing_credential_rule:
  "((response (fst (validateApiKey p r s)) = Some MissingCredential)
      = (spec_credential r = None))
   \<and> (case bearer_token r of
         Some t \<Rightarrow> providedApiKey r = Some t
       | None \<Rightarrow> providedApiKey r = Headers_get r ''x-api-key'')
   \<and> (spec_credential r \<noteq> None \<longrightarrow> providedApiKey r = spec_credential r)
   \<and> (headers r ''authorization'' = Some (str ''Bearer '')
        \<and> \<not> falsy (Headers_get r ''x-api-key'')
       \<longrightarrow> providedApiKey r = Headers_get r ''x-api-key''
           \<and> response (fst (validateApiKey p r s)) \<noteq> Some MissingCredential)"
proof -
  have a: "(response (fst (validateApiKey p r s)) = Some MissingCredential)
             = (spec_credential r = None)"
    by (simp add: validateApiKey_missing_iff provided_is_first_non_empty(1))
  have b: "case bearer_token r of
             Some t \<Rightarrow> providedApiKey r = Some t
           | None \<Rightarrow> providedApiKey r = Headers_get r ''x-api-key''"
    by (simp add: providedApiKey_cases split: option.splits)
  have c: "spec_credential r \<noteq> None \<longrightarrow> providedApiKey r = spec_credential r"
  proof
    assume "spec_credential r \<noteq> None"
    then have "\<not> falsy (providedApiKey r)" by (simp add: provided_is_first_non_empty(1))
    then show "providedApiKey r = spec_credential r" by (rule provided_is_first_non_empty(2))
  qed
  have d: "providedApiKey r = Headers_get r ''x-api-key''
           \<and> response (fst (validateApiKey p r s)) \<noteq> Some MissingCredential"
    if "headers r ''authorization'' = Some (str ''Bearer '')"
      and "\<not> falsy (Headers_get r ''x-api-key'')"
    using that by (simp add: validateApiKey_missing_iff provided_after_bare_Bearer)
  from a b c d show ?thesis by blast
qed

theorem gate_missing_credential_rule_witness:
  "headers bearer_empty_request ''authorization'' = Some (str ''Bearer '')
   \<and> Headers_get bearer_empty_request ''x-api-key'' = Some (str ''K1'')
   \<and> providedApiKey bearer_empty_request = Some (str ''K1'')
   \<and> spec_credential bearer_empty_request = Some (str ''K1'')
   \<and> response (fst (validateApiKey local_full bearer_empty_request ready_store))
       \<noteq> Some MissingCredential
   \<and> spec_credential no_header_request = None
   \<and> response (fst (validateApiKey local_full no_header_request ready_store))
       = Some MissingCredential"
proof -
  have a: "headers bearer_empty_request ''authorization'' = Some (str ''Bearer '')"
    by (simp add: bearer_empty_request_def request_with_def)
  have x: "Headers_get bearer_empty_request ''x-api-key'' = Some (str ''K1'')"
    by (simp add: Headers_get_def bearer_empty_request_def request_with_def normalize_plain)
  then have f: "\<not> falsy (Headers_get bearer_empty_request ''x-api-key'')" by simp
  note g = gate_missing_credential_rule [of local_full bearer_empty_request ready_store]
  note d = g [THEN conjunct2, THEN conjunct2, THEN conjunct2]
  from d a f have "providedApiKey bearer_empty_request = Headers_get bearer_empty_request ''x-api-key''"
    and 2: "response (fst (validateApiKey local_full bearer_empty_request ready_store))
              \<noteq> Some MissingCredential"
    by blast+
  with x have 1: "providedApiKey bearer_empty_request = Some (str ''K1'')" by simp
  from g have "(response (fst (validateApiKey local_full bearer_empty_request ready_store))
                  = Some MissingCredential) = (spec_credential bearer_empty_request = None)"
    by (rule conjunct1)
  with 2 have "spec_credential bearer_empty_request \<noteq> None" by simp
  with g [THEN conjunct2, THEN conjunct2, THEN conjunct1] 1
  have 3: "spec_credential bearer_empty_request = Some (str ''K1'')" by simp
  have n: "spec_credential no_header_request = None"
    by (simp add: spec_credential_def bearer_token_def Headers_get_def no_header_request_def
        request_with_def falsy_def)
  from gate_missing_credential_rule [of local_full no_header_request ready_store]
  have "(response (fst (validateApiKey local_full no_header_request ready_store))
           = Some MissingCredential) = (spec_credential no_header_request = None)"
    by (rule conjunct1)
  with n have 4: "response (fst (validateApiKey local_full no_header_request ready_store))
             = Some MissingCredential"
    by simp
  from a x 1 2 3 n 4 show ?thesis by (simp only: simp_thms)
qed

section \<open>The status endpoint\<close>




















subsection \<open>The authenticate action\<close>

lemma quote_units_plain:
  "list_all plain_unit a \<Longrightarrow> quote_units (a @ b) = a @ quote_units b"
proof (induction a)
  case Nil
  then show ?case by simp
next
  case (Cons c cs)
  then have p: "plain_unit c" and ih: "quote_units (cs @ b) = cs @ quote_units b" by simp_all
  from p have "c \<noteq> 0x08" "c \<noteq> 0x09" "c \<noteq> 0x0A" "c \<noteq> 0x0C" "c \<noteq> 0x0D"
    "c \<noteq> 0x22" "c \<noteq> 0x5C" "\<not> c < 0x20" "\<not> is_high_surrogate c" "\<not> is_low_surrogate c"
    by (auto simp: plain_unit_def)
  with ih show ?case by simp
qed

lemma plain_literal: "list_all plain_unit (str ''jwt_token_using_'')"
  by (simp add: str_def plain_unit_def is_high_surrogate_def is_low_surrogate_def)

lemma sublist_token:
  assumes "list_all plain_unit pre"
  shows "sublist pre (quote (str ''jwt_token_using_'' @ pre @ t))"
proof -
  have "quote_units (str ''jwt_token_using_'' @ pre @ t)
          = str ''jwt_token_using_'' @ pre @ quote_units t"
    using assms by (simp add: quote_units_plain plain_literal)
  then have "quote (str ''jwt_token_using_'' @ pre @ t)
             = ([0x22] @ str ''jwt_token_using_'') @ pre @ (quote_units t @ [0x22])"
    by (simp add: quote_def)
  then show ?thesis by (simp only: sublist_appendI)
qed

lemma text_includes_third:
  assumes "JSON_stringify v = Some t" and "sublist x t"
  shows "text_includes (JObj [(k1, JStr a), (k2, JStr b), (k3, v)]) x"
proof -
  have "sublist x (quote k3 @ str '':'' @ t)"
    using assms(2) by (intro sublist_after)
  moreover have "quote k3 @ str '':'' @ t
      \<in> set [quote k1 @ str '':'' @ quote a, quote k2 @ str '':'' @ quote b,
              quote k3 @ str '':'' @ t]"
    by simp
  ultimately have "sublist x (join (str '','')
      [quote k1 @ str '':'' @ quote a, quote k2 @ str '':'' @ quote b,
       quote k3 @ str '':'' @ t])"
    using sublist_join sublist_order.order.trans by blast
  then have "sublist x (str ''{'' @ join (str '','')
      [quote k1 @ str '':'' @ quote a, quote k2 @ str '':'' @ quote b,
       quote k3 @ str '':'' @ t] @ str ''}'')"
    by (intro sublist_after sublist_before)
  with assms(1) show ?thesis
    by (simp add: text_includes_def js_includes_sublist)
qed

lemma POST_authenticate:
  assumes "fst (getSecrets p s) = Inr sec"
    and "destructure_action p r = Inr (Some (JsonStr (str ''authenticate'')))"
  shows "fst (POST p r s) =
          (case jwtSecret_substring p sec of
             Inl e \<Rightarrow> fst (POST_failure p e (snd (getSecrets p s)))
           | Inr first8 \<Rightarrow>
               NextResponse_json
                 (JObj [(str ''status'', JStr (str ''success'')),
                        (str ''message'', JStr (str ''Authentication successful'')),
                        (str ''token'',
                           JStr (str ''jwt_token_using_'' @ first8 @ str ''...''))]) 200)"
proof -
  obtain s1 where g: "getSecrets p s = (Inr sec, s1)"
    using assms(1) by (cases "getSecrets p s") simp
  with assms(2) show ?thesis
    by (simp add: POST_def Let_def split: sum.splits)
qed

lemma status_POST_failure: "status (fst (POST_failure p e s)) = 500"
  by (simp add: POST_failure_def NextResponse_json_def)

text \<open>
  Claim C10, amended. Whenever \<open>getSecrets\<close> gives a record and the \<open>action\<close> is
  \<open>authenticate\<close>: if the \<open>jwtSecret\<close> of the record is a string, the answer has status
  200 and a \<open>token\<close> that is \<open>jwt_token_using_\<close>, the first eight code units of
  \<open>jwtSecret\<close> and \<open>...\<close>; the JSON text of that token occurs in the serialized body, and
  the eight code units occur in it as they are when they are ones that JSON copies
  unescaped. If the \<open>jwtSecret\<close> of the record is absent or is not a string, the answer
  has status 500.
\<close>

theorem authenticate_token_embeds_secret_prefix:
  assumes "fst (getSecrets p s) = Inr sec"
    and "destructure_action p r = Inr (Some (JsonStr (str ''authenticate'')))"
  shows "(\<forall>j. get_property sec (str ''jwtSecret'') = Some (JsonStr j) \<longrightarrow>
            fst (POST p r s) =
              NextResponse_json
                (JObj [(str ''status'', JStr (str ''success'')),
                       (str ''message'', JStr (str ''Authentication successful'')),
                       (str ''token'',
                          JStr (str ''jwt_token_using_'' @ take 8 j @ str ''...''))]) 200
            \<and> body_includes (fst (POST p r s))
                 (quote (str ''jwt_token_using_'' @ take 8 j @ str ''...''))
            \<and> (list_all plain_unit (take 8 j) \<longrightarrow> body_includes (fst (POST p r s)) (take 8 j)))
         \<and> ((\<forall>j. get_property sec (str ''jwtSecret'') \<noteq> Some (JsonStr j)) \<longrightarrow>
              status (fst (POST p r s)) = 500)"
proof -
  note P = POST_authenticate [OF assms]
  have A: "fst (POST p r s) =
              NextResponse_json
                (JObj [(str ''status'', JStr (str ''success'')),
                       (str ''message'', JStr (str ''Authentication successful'')),
                       (str ''token'',
                          JStr (str ''jwt_token_using_'' @ take 8 j @ str ''...''))]) 200
            \<and> body_includes (fst (POST p r s))
                 (quote (str ''jwt_token_using_'' @ take 8 j @ str ''...''))
            \<and> (list_all plain_unit (take 8 j) \<longrightarrow> body_includes (fst (POST p r s)) (take 8 j))"
    if j: "get_property sec (str ''jwtSecret'') = Some (JsonStr j)" for j
  proof -
    from j have e: "fst (POST p r s) =
              NextResponse_json
                (JObj [(str ''status'', JStr (str ''success'')),
                       (str ''message'', JStr (str ''Authentication successful'')),
                       (str ''token'',
                          JStr (str ''jwt_token_using_'' @ take 8 j @ str ''...''))]) 200"
      by (simp add: P jwtSecret_substring_def)
    have q: "body_includes (fst (POST p r s))
               (quote (str ''jwt_token_using_'' @ take 8 j @ str ''...''))"
      unfolding e body_includes_def NextResponse_json_def
      using text_includes_third [OF _ sublist_order.order.refl]
      by simp
    have v: "body_includes (fst (POST p r s)) (take 8 j)"
      if "list_all plain_unit (take 8 j)"
      unfolding e body_includes_def NextResponse_json_def
      using text_includes_third [OF _ sublist_token [OF that]]
      by simp
    from e q v show ?thesis by blast
  qed
  have B: "status (fst (POST p r s)) = 500"
    if "\<forall>j. get_property sec (str ''jwtSecret'') \<noteq> Some (JsonStr j)"
    using that
    by (auto simp: P jwtSecret_substring_def status_POST_failure
        split: option.splits json.splits)
  from A B show ?thesis by blast
qed

lemma destructure_authenticate:
  "destructure_action p authenticate_request = Inr (Some (JsonStr (str ''authenticate'')))"
  by (simp add: destructure_action_def authenticate_request_def)

theorem authenticate_token_embeds_secret_prefix_witness:
  "fst (getSecrets local_full ready_store) = Inr (object_of sample_secrets)
   \<and> destructure_action local_full authenticate_request
       = Inr (Some (JsonStr (str ''authenticate'')))
   \<and> get_property (object_of sample_secrets) (str ''jwtSecret'')
       = Some (JsonStr (str ''0123456789abcdef''))
   \<and> fst (POST local_full authenticate_request ready_store) =
           NextResponse_json
             (JObj [(str ''status'', JStr (str ''success'')),
                    (str ''message'', JStr (str ''Authentication successful'')),
                    (str ''token'', JStr (str ''jwt_token_using_01234567...''))]) 200
   \<and> body_includes (fst (POST local_full authenticate_request ready_store)) (str ''01234567'')"
proof -
  have tr: "truthy (secrets (manager ready_store))" by (simp add: ready_store_secrets)
  have g: "fst (getSecrets local_full ready_store) = Inr (object_of sample_secrets)"
    by (simp add: getSecrets_ready [OF ready_store_ready tr] ready_store_secrets)
  have j: "get_property (object_of sample_secrets) (str ''jwtSecret'')
             = Some (JsonStr (str ''0123456789abcdef''))"
    by (simp add: get_property_object_of sample_secrets_def)
  have t: "take 8 (str ''0123456789abcdef'') = str ''01234567''"
    by (simp add: str_def)
  have pl: "list_all plain_unit (str ''01234567'')"
    by (simp add: str_def plain_unit_def is_high_surrogate_def is_low_surrogate_def)
  have m: "str ''jwt_token_using_'' @ str ''01234567'' @ str ''...''
             = str ''jwt_token_using_01234567...''"
    by (simp add: str_def)
  note c = authenticate_token_embeds_secret_prefix
             [OF g destructure_authenticate, THEN conjunct1, rule_format, OF j, unfolded t m]
  from c have a: "fst (POST local_full authenticate_request ready_store) =
           NextResponse_json
             (JObj [(str ''status'', JStr (str ''success'')),
                    (str ''message'', JStr (str ''Authentication successful'')),
                    (str ''token'', JStr (str ''jwt_token_using_01234567...''))]) 200"
    by (rule conjunct1)
  from c pl have b: "body_includes (fst (POST local_full authenticate_request ready_store))
                       (str ''01234567'')"
    by blast
  from g destructure_authenticate j a b show ?thesis by (simp only: simp_thms)
qed

lemma initialize_remote_no_jwt:
  "initialize remote_no_jwt fresh =
     (Inr (),
      \<lparr>manager = \<lparr>secrets = no_jwt_object, isInitialized = True\<rparr>,
       effects = [Call_getContent (str ''ghp_token'') (str ''acme'') (str ''config'')
                    (str ''secrets.json'')]\<rparr>)"
proof -
  have t: "loadFromGitHub_try remote_no_jwt fresh =
     (Inr (),
      \<lparr>manager = \<lparr>secrets = no_jwt_object, isInitialized = False\<rparr>,
       effects = [Call_getContent (str ''ghp_token'') (str ''acme'') (str ''config'')
                    (str ''secrets.json'')]\<rparr>)"
    by (simp add: loadFromGitHub_try_def remote_no_jwt_def remote_empty_key_def remote_file_def
        parse_no_jwt_def Let_def or_else_str emit_def fresh_def or_else_def [of None])
  have m: "env remote_no_jwt ''NODE_ENV'' = Some (str ''production'')"
    by (simp add: remote_no_jwt_def remote_empty_key_def)
  show ?thesis
    by (simp add: initialize_def m loadFromGitHub_def t) (simp add: fresh_def)
qed

lemma no_jwt_property: "get_property no_jwt_object (str ''jwtSecret'') = None"
  by (simp add: no_jwt_object_def str_def)

lemma local_newline_mode: "env local_newline ''NODE_ENV'' \<noteq> Some (str ''production'')"
  by (simp add: local_newline_def str_def)

lemma local_newline_missing: "missing_fields local_newline = []"
  by (simp add: missing_fields_def local_newline_def field_variables_def falsy_def)

lemma local_newline_secrets:
  "secrets_from_env local_newline = sample_secrets\<lparr>jwtSecret := 0x0A # str ''secret-1''\<rparr>"
  by (simp add: secrets_from_env_def local_newline_def sample_secrets_def or_else_def)

lemma getSecrets_local_newline:
  "getSecrets local_newline fresh =
     (Inr (object_of (sample_secrets\<lparr>jwtSecret := 0x0A # str ''secret-1''\<rparr>)),
      \<lparr>manager = \<lparr>secrets = object_of (sample_secrets\<lparr>jwtSecret := 0x0A # str ''secret-1''\<rparr>),
                  isInitialized = True\<rparr>,
       effects = [Call_getSecrets, Call_loadFromEnv]\<rparr>)"
proof -
  have n: "\<not> isInitialized (manager (emit Call_getSecrets fresh))" by (simp add: fresh_def)
  have i: "initialize local_newline (emit Call_getSecrets fresh) =
     (Inr (),
      \<lparr>manager = \<lparr>secrets = object_of (sample_secrets\<lparr>jwtSecret := 0x0A # str ''secret-1''\<rparr>),
                  isInitialized = True\<rparr>,
       effects = [Call_getSecrets, Call_loadFromEnv]\<rparr>)"
    using initialize_local [OF local_newline_mode n]
    by (simp add: local_newline_missing local_newline_secrets fresh_def emit_def Let_def)
  have "\<not> isReady (manager (emit Call_getSecrets fresh))" by (simp add: fresh_def isReady_def)
  then show ?thesis
    by (simp add: getSecrets_def Let_def i SecretsManager_getSecrets_def)
qed

lemma newline_token_text:
  "\<not> text_includes
       (JObj [(str ''status'', JStr (str ''success'')),
              (str ''message'', JStr (str ''Authentication successful'')),
              (str ''token'', JStr (str ''jwt_token_using_'' @ (0x0A # str ''secret-'') @ str ''...''))])
       (0x0A # str ''secret-'')"
  by (simp add: text_includes_def quote_def str_def is_high_surrogate_def is_low_surrogate_def)

text \<open>
  Claim C10, as stated, fails on two inputs. A remote file without \<open>jwtSecret\<close> loads
  successfully and leaves the store ready, and the authenticate action is then answered
  with status 500. And in a local environment whose \<open>JWT_SECRET\<close> starts with a line
  feed the answer has status 200, but the first eight code units of the secret do not
  occur in the serialized body, where the line feed is written as an escape.
\<close>

theorem authenticate_needs_a_plain_string_secret:
  "fst (initialize remote_no_jwt fresh) = Inr ()
   \<and> isReady (manager (snd (initialize remote_no_jwt fresh)))
   \<and> status (fst (POST remote_no_jwt authenticate_request (snd (initialize remote_no_jwt fresh))))
       = 500
   \<and> status (fst (POST local_newline authenticate_request fresh)) = 200
   \<and> fst (getSecrets local_newline fresh)
       = Inr (object_of (sample_secrets\<lparr>jwtSecret := 0x0A # str ''secret-1''\<rparr>))
   \<and> take 8 (0x0A # str ''secret-1'') = 0x0A # str ''secret-''
   \<and> \<not> body_includes (fst (POST local_newline authenticate_request fresh))
         (0x0A # str ''secret-'')"
proof -
  let ?s = "snd (initialize remote_no_jwt fresh)"
  have a: "fst (initialize remote_no_jwt fresh) = Inr ()"
    and b: "isReady (manager ?s)" and tr: "truthy (secrets (manager ?s))"
    and sec: "secrets (manager ?s) = no_jwt_object"
    by (simp_all add: initialize_remote_no_jwt isReady_def no_jwt_object_def)
  have g: "fst (getSecrets remote_no_jwt ?s) = Inr no_jwt_object"
    by (simp add: getSecrets_ready [OF b tr] sec)
  have c: "status (fst (POST remote_no_jwt authenticate_request ?s)) = 500"
    by (simp add: POST_authenticate [OF g destructure_authenticate] jwtSecret_substring_def
        no_jwt_property status_POST_failure)
  have g2: "fst (getSecrets local_newline fresh)
       = Inr (object_of (sample_secrets\<lparr>jwtSecret := 0x0A # str ''secret-1''\<rparr>))"
    by (simp add: getSecrets_local_newline)
  have t: "take 8 (0x0A # str ''secret-1'') = 0x0A # str ''secret-''"
    by (simp add: str_def)
  have e: "fst (POST local_newline authenticate_request fresh) =
             NextResponse_json
               (JObj [(str ''status'', JStr (str ''success'')),
                      (str ''message'', JStr (str ''Authentication successful'')),
                      (str ''token'',
                         JStr (str ''jwt_token_using_'' @ (0x0A # str ''secret-'') @ str ''...''))])
               200"
    by (simp add: POST_authenticate [OF g2 destructure_authenticate] jwtSecret_substring_def
        get_property_object_of)
       (simp add: str_def)
  have d: "status (fst (POST local_newline authenticate_request fresh)) = 200"
    by (simp add: e NextResponse_json_def)
  have n: "\<not> body_includes (fst (POST local_newline authenticate_request fresh))
             (0x0A # str ''secret-'')"
    unfolding e body_includes_def NextResponse_json_def
    using newline_token_text by simp
  from a b c d g2 t n show ?thesis by (simp only: simp_thms)
qed

end
